theory Spec2Isabelle
  imports Main "HOL-Library.Char_ord" "HOL-Library.List_Lexorder"
begin

section \<open>Errors and library helpers\<close>

text \<open>
  The exceptions that the modelled functions can raise. A failed \<open>assert\<close> is
  \<open>AssertionError\<close>; reading an attribute that a class does not define is
  \<open>AttributeError\<close>; reading a local variable that was never assigned is
  \<open>UnboundLocalError\<close>. Functions that can raise return \<open>error + 'a\<close>.
\<close>

datatype error =
    AssertionError
  | ItemNotFoundError
  | MultipleItemFoundError
  | AttributeError
  | UnboundLocalError
  | InvalidReaderError "string list"

text \<open>
  The exceptions of the package derive from its base class \<open>Error\<close>; \<open>except Error\<close>
  catches these and no built-in exception.
\<close>

fun is_Error :: "error \<Rightarrow> bool" where
  "is_Error ItemNotFoundError = True"
| "is_Error MultipleItemFoundError = True"
| "is_Error (InvalidReaderError _) = True"
| "is_Error _ = False"



text \<open>
  \<open>itertools.groupby\<close>: consecutive items with equal keys form one group; the input is
  not sorted first.
\<close>

function groupby :: "('a \<Rightarrow> 'k) \<Rightarrow> 'a list \<Rightarrow> ('k \<times> 'a list) list" where
  "groupby f [] = []"
| "groupby f (x # xs) =
     (f x, x # takeWhile (\<lambda>y. f y = f x) xs) # groupby f (dropWhile (\<lambda>y. f y = f x) xs)"
  by pat_completeness auto
termination
  by (relation "measure (\<lambda>(f, xs). length xs)")
     (auto simp: less_Suc_eq_le length_dropWhile_le)

text \<open>\<open>str.endswith\<close>.\<close>

definition endswith :: "string \<Rightarrow> string \<Rightarrow> bool" where
  "endswith s suf \<longleftrightarrow> length suf \<le> length s \<and> drop (length s - length suf) s = suf"

section \<open>Transform values and the transform tree\<close>

text \<open>
  \<open>value_objects/transform.py\<close>. \<open>TransformValue\<close> is a value object: two of them are equal
  when their fields are (the base class \<open>ValueObject\<close> is not among the sources; the
  specification calls the values field-wise comparable snapshots).
\<close>

record TransformValue =
  frame_id :: string
  child_frame_id :: string

datatype TransformTreeValue =
  TransformTreeValue (root_tf: TransformValue) (childs: "TransformTreeValue list")





text \<open>
  \<open>TransformTreeValue._to_root\<close>. The nested function \<open>find_coord_local\<close> adds to the set
  \<open>s\<close> of the enclosing call; the model passes the set in and returns it with the result.
  \<open>find_coord_childs\<close> is the \<open>for child in tree.childs\<close> loop of one call.
\<close>

fun find_coord_local ::
  "string \<Rightarrow> TransformTreeValue \<Rightarrow> TransformValue set \<Rightarrow> bool \<times> TransformValue set"
and find_coord_childs ::
  "string \<Rightarrow> TransformValue \<Rightarrow> TransformTreeValue list \<Rightarrow> TransformValue set
     \<Rightarrow> bool \<times> TransformValue set"
where
  "find_coord_local target_tf (TransformTreeValue tf cs) s =
     (if frame_id tf = target_tf then (True, insert tf s)
      else find_coord_childs target_tf tf cs s)"
| "find_coord_childs target_tf tf [] s = (False, s)"
| "find_coord_childs target_tf tf (child # cs) s =
     (case find_coord_local target_tf child s of
        (True, s') \<Rightarrow> (True, insert tf s')
      | (False, s') \<Rightarrow> find_coord_childs target_tf tf cs s')"

definition to_root :: "TransformTreeValue \<Rightarrow> string \<Rightarrow> TransformValue set" where
  "to_root tree target_tf = snd (find_coord_local target_tf tree {})"

text \<open>\<open>TransformTreeValue.is_in\<close>; \<open>^\<close> on Python sets is the symmetric difference.\<close>

definition sym_diff :: "'a set \<Rightarrow> 'a set \<Rightarrow> 'a set" where
  "sym_diff a b = (a - b) \<union> (b - a)"

definition is_in :: "TransformTreeValue \<Rightarrow> TransformValue \<Rightarrow> TransformValue \<Rightarrow> bool" where
  "is_in tree lookup_transform target_transform =
     (let lookup_frame_ids = to_root tree (frame_id lookup_transform);
          lookup_child_frme_ids = to_root tree (child_frame_id lookup_transform);
          frames = sym_diff lookup_frame_ids lookup_child_frme_ids
      in {target_transform} \<subseteq> frames)"

text \<open>The chain \<open>root \<rightarrow> A \<rightarrow> B \<rightarrow> C\<close> of the specification's scenario.\<close>

definition tf_root_A :: TransformValue where
  "tf_root_A = \<lparr>frame_id = ''root'', child_frame_id = ''A''\<rparr>"

definition tf_A_B :: TransformValue where
  "tf_A_B = \<lparr>frame_id = ''A'', child_frame_id = ''B''\<rparr>"

definition tf_B_C :: TransformValue where
  "tf_B_C = \<lparr>frame_id = ''B'', child_frame_id = ''C''\<rparr>"

definition tf_root_B :: TransformValue where
  "tf_root_B = \<lparr>frame_id = ''root'', child_frame_id = ''B''\<rparr>"

definition chain_tree :: TransformTreeValue where
  "chain_tree =
     TransformTreeValue tf_B_C [TransformTreeValue tf_A_B [TransformTreeValue tf_root_A []]]"

section \<open>The reader and the topic-ignoring reader\<close>

text \<open>
  The value classes that a reader returns are not among the sources; each is a record of
  the attributes that the modelled functions read. \<open>Optional\<close> attributes are options.
\<close>

record NodeValue =
  nv_node_name :: string
  nv_node_id :: "string option"

record PublisherValue =
  pv_node_name :: string
  pv_topic_name :: string
  pv_callback_ids :: "string list option"

record SubscriptionValue =
  sv_topic_name :: string
  sv_node_name :: string
  sv_node_id :: "string option"
  sv_callback_id :: "string option"

record SubscriptionCallbackValue =
  scv_callback_id :: "string option"
  scv_node_name :: string
  scv_subscribe_topic_name :: "string option"

record CallbackGroupValue =
  cbg_type_name :: string
  cbg_node_name :: string
  cbg_node_id :: "string option"
  cbg_callback_ids :: "string list"
  cbg_callback_group_id :: string
  cbg_callback_group_name :: "string option"

text \<open>
  The wrapped reader is an object behind the \<open>ArchitectureReader\<close> interface: a record of
  the methods that \<open>TopicIgnoredReader\<close> calls on it.
\<close>

record ArchitectureReader =
  r_get_nodes :: "NodeValue list"
  r_get_publishers :: "NodeValue \<Rightarrow> PublisherValue list"
  r_get_subscriptions :: "NodeValue \<Rightarrow> SubscriptionValue list"
  r_get_subscription_callbacks :: "NodeValue \<Rightarrow> SubscriptionCallbackValue list"
  r_get_callback_groups :: "NodeValue \<Rightarrow> CallbackGroupValue list"

record TopicIgnoredReader =
  tir_reader :: ArchitectureReader
  tir_ignore_topics :: "string list"
  tir_ignore_callback_ids :: "string set"

text \<open>
  \<open>TopicIgnoredReader._get_ignore_callback_ids\<close>: the inner loop over the subscription
  callbacks of one node, then the loop over the reader's nodes. A callback whose topic is
  \<open>None\<close> is not in the ignore set, so it is skipped like any other topic outside it.
\<close>

fun ignore_ids_of_callbacks :: "string set \<Rightarrow> SubscriptionCallbackValue list \<Rightarrow> string list" where
  "ignore_ids_of_callbacks ignore_topic_set [] = []"
| "ignore_ids_of_callbacks ignore_topic_set (sub_val # sub) =
     (case scv_subscribe_topic_name sub_val of
        None \<Rightarrow> ignore_ids_of_callbacks ignore_topic_set sub
      | Some t \<Rightarrow>
          if t \<notin> ignore_topic_set then ignore_ids_of_callbacks ignore_topic_set sub
          else (case scv_callback_id sub_val of
                  None \<Rightarrow> ignore_ids_of_callbacks ignore_topic_set sub
                | Some cid \<Rightarrow> cid # ignore_ids_of_callbacks ignore_topic_set sub))"

fun ignore_ids_of_nodes ::
  "ArchitectureReader \<Rightarrow> string set \<Rightarrow> NodeValue list \<Rightarrow> string list" where
  "ignore_ids_of_nodes reader ignore_topic_set [] = []"
| "ignore_ids_of_nodes reader ignore_topic_set (node # nodes) =
     ignore_ids_of_callbacks ignore_topic_set (r_get_subscription_callbacks reader node)
       @ ignore_ids_of_nodes reader ignore_topic_set nodes"

definition get_ignore_callback_ids :: "ArchitectureReader \<Rightarrow> string list \<Rightarrow> string set" where
  "get_ignore_callback_ids reader ignore_topics =
     set (ignore_ids_of_nodes reader (set ignore_topics) (r_get_nodes reader))"

definition TopicIgnoredReader_init :: "ArchitectureReader \<Rightarrow> string list \<Rightarrow> TopicIgnoredReader" where
  "TopicIgnoredReader_init reader ignore_topics =
     \<lparr>tir_reader = reader,
      tir_ignore_topics = ignore_topics,
      tir_ignore_callback_ids = get_ignore_callback_ids reader ignore_topics\<rparr>"

text \<open>\<open>TopicIgnoredReader._get_publishers\<close> and \<open>_get_subscriptions\<close>.\<close>

fun tir_get_publishers_loop :: "string list \<Rightarrow> PublisherValue list \<Rightarrow> PublisherValue list" where
  "tir_get_publishers_loop ignore_topics [] = []"
| "tir_get_publishers_loop ignore_topics (publisher # rest) =
     (if pv_topic_name publisher \<in> set ignore_topics
      then tir_get_publishers_loop ignore_topics rest
      else publisher # tir_get_publishers_loop ignore_topics rest)"

definition tir_get_publishers :: "TopicIgnoredReader \<Rightarrow> NodeValue \<Rightarrow> PublisherValue list" where
  "tir_get_publishers self node =
     tir_get_publishers_loop (tir_ignore_topics self) (r_get_publishers (tir_reader self) node)"

fun tir_get_subscriptions_loop ::
  "string list \<Rightarrow> SubscriptionValue list \<Rightarrow> SubscriptionValue list" where
  "tir_get_subscriptions_loop ignore_topics [] = []"
| "tir_get_subscriptions_loop ignore_topics (subscription # rest) =
     (if sv_topic_name subscription \<in> set ignore_topics
      then tir_get_subscriptions_loop ignore_topics rest
      else subscription # tir_get_subscriptions_loop ignore_topics rest)"

definition tir_get_subscriptions :: "TopicIgnoredReader \<Rightarrow> NodeValue \<Rightarrow> SubscriptionValue list" where
  "tir_get_subscriptions self node =
     tir_get_subscriptions_loop (tir_ignore_topics self)
       (r_get_subscriptions (tir_reader self) node)"

text \<open>
  \<open>TopicIgnoredReader._get_callback_groups\<close>. The ids of a group become
  \<open>tuple(set(cbg.callback_ids) - self._ignore_callback_ids)\<close>; the set is a duplicate-free
  list in insertion order, as above.
\<close>

definition tir_get_callback_groups ::
  "TopicIgnoredReader \<Rightarrow> NodeValue \<Rightarrow> CallbackGroupValue list" where
  "tir_get_callback_groups self node =
     map (\<lambda>cbg.
            \<lparr>cbg_type_name = cbg_type_name cbg,
             cbg_node_name = cbg_node_name cbg,
             cbg_node_id = cbg_node_id cbg,
             cbg_callback_ids =
               filter (\<lambda>i. i \<notin> tir_ignore_callback_ids self) (remdups (cbg_callback_ids cbg)),
             cbg_callback_group_id = cbg_callback_group_id cbg,
             cbg_callback_group_name = cbg_callback_group_name cbg\<rparr>)
       (r_get_callback_groups (tir_reader self) node)"

text \<open>
  \<open>TopicIgnoredReader._validate\<close>: \<open>groupby\<close> over the node names in reader order; a name
  whose group has two or more members is a duplicate.
\<close>

definition validate :: "NodeValue list \<Rightarrow> error + unit" where
  "validate nodes =
     (let node_names = map nv_node_name nodes;
          duplicated =
            map fst (filter (\<lambda>(node_name, group). length group \<ge> 2)
                       (groupby (\<lambda>x. x) node_names))
      in if length duplicated \<ge> 1 then Inl (InvalidReaderError duplicated) else Inr ())"

text \<open>
  \<open>TopicIgnoredReader.get_nodes\<close>. The first loop keeps the first node of every name. The
  logger is modelled as the list of logged exceptions, returned with the nodes. Python
  compares strings by code point; \<open>sort_key\<close> with the lexicographic order on \<open>char list\<close>
  is the same order, and it is stable as \<open>sorted\<close> is.
\<close>

fun get_nodes_loop :: "NodeValue list \<Rightarrow> string set \<Rightarrow> NodeValue list \<Rightarrow> NodeValue list" where
  "get_nodes_loop [] node_names nodes' = nodes'"
| "get_nodes_loop (node # nodes) node_names nodes' =
     (if nv_node_name node \<notin> node_names
      then get_nodes_loop nodes (insert (nv_node_name node) node_names) (nodes' @ [node])
      else get_nodes_loop nodes node_names nodes')"

definition get_nodes :: "TopicIgnoredReader \<Rightarrow> error list \<times> NodeValue list" where
  "get_nodes self =
     (let nodes = r_get_nodes (tir_reader self);
          nodes' = get_nodes_loop nodes {} [];
          logged = (case validate nodes of Inl e \<Rightarrow> [e] | Inr _ \<Rightarrow> [])
      in (logged, sort_key nv_node_name nodes'))"

text \<open>A reader that declares the node name \<open>dup\<close> twice, with another node in between.\<close>

definition node_dup_first :: NodeValue where
  "node_dup_first = \<lparr>nv_node_name = ''dup'', nv_node_id = Some ''dup_0''\<rparr>"

definition node_dup_second :: NodeValue where
  "node_dup_second = \<lparr>nv_node_name = ''dup'', nv_node_id = Some ''dup_1''\<rparr>"

definition node_other :: NodeValue where
  "node_other = \<lparr>nv_node_name = ''other'', nv_node_id = Some ''other_0''\<rparr>"

definition reader_of_nodes :: "NodeValue list \<Rightarrow> ArchitectureReader" where
  "reader_of_nodes nodes =
     \<lparr>r_get_nodes = nodes,
      r_get_publishers = (\<lambda>_. []),
      r_get_subscriptions = (\<lambda>_. []),
      r_get_subscription_callbacks = (\<lambda>_. []),
      r_get_callback_groups = (\<lambda>_. [])\<rparr>"

text \<open>A reader with one node, one ignored topic and one callback subscribed to it.\<close>

definition w_node :: NodeValue where
  "w_node = \<lparr>nv_node_name = ''/listener'', nv_node_id = Some ''/listener_0''\<rparr>"

definition w_pub_keep :: PublisherValue where
  "w_pub_keep = \<lparr>pv_node_name = ''/listener'', pv_topic_name = ''/out'', pv_callback_ids = None\<rparr>"

definition w_pub_drop :: PublisherValue where
  "w_pub_drop = \<lparr>pv_node_name = ''/listener'', pv_topic_name = ''/rosout'', pv_callback_ids = None\<rparr>"

definition w_sub_keep :: SubscriptionValue where
  "w_sub_keep = \<lparr>sv_topic_name = ''/in'', sv_node_name = ''/listener'',
                  sv_node_id = Some ''/listener_0'', sv_callback_id = Some ''cb_in''\<rparr>"

definition w_sub_drop :: SubscriptionValue where
  "w_sub_drop = \<lparr>sv_topic_name = ''/rosout'', sv_node_name = ''/listener'',
                  sv_node_id = Some ''/listener_0'', sv_callback_id = Some ''cb_rosout''\<rparr>"

definition w_cb_keep :: SubscriptionCallbackValue where
  "w_cb_keep = \<lparr>scv_callback_id = Some ''cb_in'', scv_node_name = ''/listener'',
                 scv_subscribe_topic_name = Some ''/in''\<rparr>"

definition w_cb_drop :: SubscriptionCallbackValue where
  "w_cb_drop = \<lparr>scv_callback_id = Some ''cb_rosout'', scv_node_name = ''/listener'',
                 scv_subscribe_topic_name = Some ''/rosout''\<rparr>"

definition w_group :: CallbackGroupValue where
  "w_group = \<lparr>cbg_type_name = ''mutually_exclusive'', cbg_node_name = ''/listener'',
               cbg_node_id = Some ''/listener_0'', cbg_callback_ids = [''cb_in'', ''cb_rosout''],
               cbg_callback_group_id = ''cbg_0'', cbg_callback_group_name = None\<rparr>"

definition w_reader :: ArchitectureReader where
  "w_reader =
     \<lparr>r_get_nodes = [w_node],
      r_get_publishers = (\<lambda>_. [w_pub_keep, w_pub_drop]),
      r_get_subscriptions = (\<lambda>_. [w_sub_drop, w_sub_keep]),
      r_get_subscription_callbacks = (\<lambda>_. [w_cb_keep, w_cb_drop]),
      r_get_callback_groups = (\<lambda>_. [w_group])\<rparr>"

section \<open>Callbacks\<close>

text \<open>
  \<open>architecture/struct/callback.py\<close>. \<open>TimerCallbackStruct\<close> and
  \<open>SubscriptionCallbackStruct\<close> extend \<open>CallbackStruct\<close>; the subclass is the field
  \<open>cb_kind\<close>, and a timer callback carries its \<open>period_ns\<close> there. The value classes of
  callbacks are not among the sources: a value holds the arguments that \<open>to_value\<close> passes
  to its constructor.
\<close>

datatype callback_kind = TimerCallback "int option" | SubscriptionCallback

record CallbackStruct =
  cb_node_name :: "string option"
  cb_callback_name :: string
  cb_callback_id :: string
  cb_symbol :: "string option"
  cb_subscribe_topic_name :: "string option"
  cb_publish_topic_names :: "string list option"
  cb_kind :: callback_kind

datatype CallbackStructValue =
    TimerCallbackStructValue string string int "string list option" string string
  | SubscriptionCallbackStructValue string string string "string list option" string string

text \<open>
  \<open>TimerCallbackStruct.to_value\<close> and \<open>SubscriptionCallbackStruct.to_value\<close>. The
  accessors \<open>node_name\<close>, \<open>symbol\<close>, \<open>period_ns\<close> and \<open>subscribe_topic_name\<close> assert that
  the field is set; the constructor arguments are evaluated in the order written.
\<close>

definition callback_to_value :: "CallbackStruct \<Rightarrow> error + CallbackStructValue" where
  "callback_to_value self =
     (case cb_kind self of
        TimerCallback period_ns \<Rightarrow>
          (case cb_node_name self of None \<Rightarrow> Inl AssertionError | Some node_name \<Rightarrow>
           case cb_symbol self of None \<Rightarrow> Inl AssertionError | Some symbol \<Rightarrow>
           case period_ns of None \<Rightarrow> Inl AssertionError | Some period \<Rightarrow>
             Inr (TimerCallbackStructValue node_name symbol period
                    (cb_publish_topic_names self) (cb_callback_name self) (cb_callback_id self)))
      | SubscriptionCallback \<Rightarrow>
          (case cb_node_name self of None \<Rightarrow> Inl AssertionError | Some node_name \<Rightarrow>
           case cb_symbol self of None \<Rightarrow> Inl AssertionError | Some symbol \<Rightarrow>
           case cb_subscribe_topic_name self of None \<Rightarrow> Inl AssertionError | Some topic \<Rightarrow>
             Inr (SubscriptionCallbackStructValue node_name symbol topic
                    (cb_publish_topic_names self) (cb_callback_name self) (cb_callback_id self))))"

text \<open>
  \<open>tuple(x.to_value() for x in xs)\<close>: the conversions run in order and the first
  exception ends the loop.
\<close>

fun map_raise :: "('a \<Rightarrow> error + 'b) \<Rightarrow> 'a list \<Rightarrow> error + 'b list" where
  "map_raise f [] = Inr []"
| "map_raise f (x # xs) =
     (case f x of
        Inl e \<Rightarrow> Inl e
      | Inr y \<Rightarrow> (case map_raise f xs of Inl e \<Rightarrow> Inl e | Inr ys \<Rightarrow> Inr (y # ys)))"

text \<open>
  A Python \<open>dict\<close> keeps its keys in insertion order: an association list with one entry
  per key. \<open>d[k] = v\<close> replaces the value of a key that is present, where it stands, and
  appends a new key.
\<close>

fun dict_set :: "'k \<Rightarrow> 'v \<Rightarrow> ('k \<times> 'v) list \<Rightarrow> ('k \<times> 'v) list" where
  "dict_set k v [] = [(k, v)]"
| "dict_set k v ((k', v') # d) = (if k' = k then (k, v) # d else (k', v') # dict_set k v d)"

text \<open>\<open>CallbacksStruct\<close>: the dictionary \<open>_cb_dict\<close> from callback id to callback.\<close>

record CallbacksStruct =
  cbs_node :: "NodeValue option"
  cbs_cb_dict :: "(string \<times> CallbackStruct) list"

definition CallbacksStruct_init :: "NodeValue option \<Rightarrow> CallbacksStruct" where
  "CallbacksStruct_init node = \<lparr>cbs_node = node, cbs_cb_dict = []\<rparr>"

definition callbacks_insert :: "CallbacksStruct \<Rightarrow> CallbackStruct \<Rightarrow> CallbacksStruct" where
  "callbacks_insert self callback =
     self\<lparr>cbs_cb_dict := dict_set (cb_callback_id callback) callback (cbs_cb_dict self)\<rparr>"

definition get_callback :: "CallbacksStruct \<Rightarrow> string \<Rightarrow> error + CallbackStruct" where
  "get_callback self callback_id =
     (case map_of (cbs_cb_dict self) callback_id of
        Some callback \<Rightarrow> Inr callback
      | None \<Rightarrow> Inl ItemNotFoundError)"

fun get_callbacks_loop :: "CallbacksStruct \<Rightarrow> string list \<Rightarrow> CallbacksStruct \<Rightarrow> CallbacksStruct" where
  "get_callbacks_loop self [] callbacks = callbacks"
| "get_callbacks_loop self (callback_id # callback_ids) callbacks =
     (case map_of (cbs_cb_dict self) callback_id of
        None \<Rightarrow> get_callbacks_loop self callback_ids callbacks
      | Some callback \<Rightarrow>
          get_callbacks_loop self callback_ids (callbacks_insert callbacks callback))"

definition get_callbacks :: "CallbacksStruct \<Rightarrow> string list \<Rightarrow> CallbacksStruct" where
  "get_callbacks self callback_ids =
     get_callbacks_loop self callback_ids (CallbacksStruct_init None)"

definition callbacks_to_value :: "CallbacksStruct \<Rightarrow> error + CallbackStructValue list" where
  "callbacks_to_value self = map_raise callback_to_value (map snd (cbs_cb_dict self))"

section \<open>Publishers and subscriptions\<close>

text \<open>
  \<open>architecture/struct/publisher.py\<close>. The constructor of \<open>PublisherStruct\<close> takes every
  field as \<open>Optional\<close>; the accessors \<open>node_name\<close> and \<open>topic_name\<close> assert that the field is
  set. \<open>PublisherStructValue\<close> and \<open>SubscriptionStructValue\<close> are not among the sources:
  a value holds the arguments that \<open>to_value\<close> passes to its constructor.
\<close>

record PublisherStruct =
  ps_node_name :: "string option"
  ps_topic_name :: "string option"
  ps_callbacks :: "CallbacksStruct option"

record PublisherStructValue =
  psv_node_name :: string
  psv_topic_name :: string
  psv_callback_values :: "CallbackStructValue list option"

definition publisher_node_name :: "PublisherStruct \<Rightarrow> error + string" where
  "publisher_node_name self =
     (case ps_node_name self of None \<Rightarrow> Inl AssertionError | Some n \<Rightarrow> Inr n)"

definition publisher_topic_name :: "PublisherStruct \<Rightarrow> error + string" where
  "publisher_topic_name self =
     (case ps_topic_name self of None \<Rightarrow> Inl AssertionError | Some t \<Rightarrow> Inr t)"

text \<open>The setter \<open>PublisherStruct.callbacks\<close>.\<close>

definition publisher_set_callbacks :: "PublisherStruct \<Rightarrow> CallbacksStruct \<Rightarrow> PublisherStruct" where
  "publisher_set_callbacks self callbacks = self\<lparr>ps_callbacks := Some callbacks\<rparr>"

definition publisher_to_value :: "PublisherStruct \<Rightarrow> error + PublisherStructValue" where
  "publisher_to_value self =
     (case (case ps_callbacks self of
              None \<Rightarrow> Inr None
            | Some cbs \<Rightarrow> (case callbacks_to_value cbs of Inl e \<Rightarrow> Inl e | Inr vs \<Rightarrow> Inr (Some vs))) of
        Inl e \<Rightarrow> Inl e
      | Inr callback_values \<Rightarrow>
          (case publisher_node_name self of Inl e \<Rightarrow> Inl e | Inr node_name \<Rightarrow>
           case publisher_topic_name self of Inl e \<Rightarrow> Inl e | Inr topic_name \<Rightarrow>
             Inr \<lparr>psv_node_name = node_name, psv_topic_name = topic_name,
                  psv_callback_values = callback_values\<rparr>))"

text \<open>
  \<open>PublishersStruct.create_from_reader\<close>, over the publishers that the reader returns for
  the node. \<open>get_callbacks\<close> raises nothing, so the \<open>except Error\<close> branch is never taken.
\<close>

fun PublishersStruct_create_from_reader ::
  "PublisherValue list \<Rightarrow> CallbacksStruct \<Rightarrow> PublisherStruct list" where
  "PublishersStruct_create_from_reader [] callbacks = []"
| "PublishersStruct_create_from_reader (publisher_value # rest) callbacks =
     (if pv_topic_name publisher_value = ''/tf''
      then PublishersStruct_create_from_reader rest callbacks
      else
        (let pub_callbacks =
               (case pv_callback_ids publisher_value of
                  None \<Rightarrow> None
                | Some ids \<Rightarrow> Some (get_callbacks callbacks ids));
             pub = \<lparr>ps_node_name = Some (pv_node_name publisher_value),
                    ps_topic_name = Some (pv_topic_name publisher_value),
                    ps_callbacks = pub_callbacks\<rparr>
         in pub # PublishersStruct_create_from_reader rest callbacks))"

text \<open>\<open>architecture/struct/subscription.py\<close>.\<close>

record SubscriptionStruct =
  ss_node_name :: string
  ss_topic_name :: string
  ss_callback :: "CallbackStruct option"
  ss_is_transformed :: bool

record SubscriptionStructValue =
  ssv_node_name :: string
  ssv_topic_name :: string
  ssv_callback :: "CallbackStructValue option"

definition SubscriptionStruct_init ::
  "string \<Rightarrow> string \<Rightarrow> CallbackStruct option \<Rightarrow> SubscriptionStruct" where
  "SubscriptionStruct_init node_name topic_name callback =
     \<lparr>ss_node_name = node_name, ss_topic_name = topic_name, ss_callback = callback,
      ss_is_transformed = False\<rparr>"

text \<open>The setter \<open>SubscriptionStruct.callback\<close>, guarded by \<open>_is_transformed\<close>.\<close>

definition subscription_set_callback ::
  "SubscriptionStruct \<Rightarrow> CallbackStruct \<Rightarrow> error + SubscriptionStruct" where
  "subscription_set_callback self callback =
     (if ss_is_transformed self then Inl AssertionError
      else Inr (self\<lparr>ss_callback := Some callback\<rparr>))"

text \<open>
  \<open>SubscriptionStruct.to_value\<close> sets \<open>_is_transformed\<close> before anything can raise: the
  model returns the result together with the struct as the call leaves it.
\<close>

definition subscription_to_value ::
  "SubscriptionStruct \<Rightarrow> (error + SubscriptionStructValue) \<times> SubscriptionStruct" where
  "subscription_to_value self =
     (let self' = self\<lparr>ss_is_transformed := True\<rparr>
      in (case (case ss_callback self' of
                  None \<Rightarrow> Inr None
                | Some cb \<Rightarrow> (case callback_to_value cb of Inl e \<Rightarrow> Inl e | Inr v \<Rightarrow> Inr (Some v))) of
            Inl e \<Rightarrow> Inl e
          | Inr callback \<Rightarrow>
              Inr \<lparr>ssv_node_name = ss_node_name self', ssv_topic_name = ss_topic_name self',
                   ssv_callback = callback\<rparr>,
          self'))"

text \<open>\<open>SubscriptionStruct.create_instance\<close>.\<close>

definition SubscriptionStruct_create_instance ::
  "CallbacksStruct \<Rightarrow> SubscriptionValue \<Rightarrow> error + SubscriptionStruct" where
  "SubscriptionStruct_create_instance callbacks subscription_value =
     (let sub = SubscriptionStruct_init (sv_node_name subscription_value)
                  (sv_topic_name subscription_value) None
      in case sv_callback_id subscription_value of
           None \<Rightarrow> Inr sub
         | Some callback_id \<Rightarrow>
             (case get_callback callbacks callback_id of
                Inl e \<Rightarrow> Inl e
              | Inr callback \<Rightarrow> subscription_set_callback sub callback))"

record SubscriptionsStruct =
  subs_data :: "SubscriptionStruct list"
  subs_is_transformed :: bool

definition SubscriptionsStruct_init :: SubscriptionsStruct where
  "SubscriptionsStruct_init = \<lparr>subs_data = [], subs_is_transformed = False\<rparr>"

definition subscriptions_add ::
  "SubscriptionsStruct \<Rightarrow> SubscriptionStruct \<Rightarrow> error + SubscriptionsStruct" where
  "subscriptions_add self subscription =
     (if subs_is_transformed self then Inl AssertionError
      else Inr (self\<lparr>subs_data := subs_data self @ [subscription]\<rparr>))"

text \<open>
  \<open>SubscriptionsStruct.to_value\<close>: every subscription visited before an exception has
  been marked as transformed.
\<close>

fun subscriptions_to_value_loop ::
  "SubscriptionStruct list \<Rightarrow> (error + SubscriptionStructValue list) \<times> SubscriptionStruct list"
where
  "subscriptions_to_value_loop [] = (Inr [], [])"
| "subscriptions_to_value_loop (subscription # rest) =
     (case subscription_to_value subscription of
        (Inl e, subscription') \<Rightarrow> (Inl e, subscription' # rest)
      | (Inr v, subscription') \<Rightarrow>
          (case subscriptions_to_value_loop rest of
             (Inl e, rest') \<Rightarrow> (Inl e, subscription' # rest')
           | (Inr vs, rest') \<Rightarrow> (Inr (v # vs), subscription' # rest')))"

definition subscriptions_to_value ::
  "SubscriptionsStruct \<Rightarrow> (error + SubscriptionStructValue list) \<times> SubscriptionsStruct" where
  "subscriptions_to_value self =
     (case subscriptions_to_value_loop (subs_data self) of
        (r, data') \<Rightarrow> (r, \<lparr>subs_data = data', subs_is_transformed = True\<rparr>))"

text \<open>
  \<open>SubscriptionsStruct.create_from_reader\<close>, over the subscriptions that the reader
  returns for the node. An \<open>Error\<close> is caught and logged, and the subscription is left
  out; any other exception leaves the loop.
\<close>

fun SubscriptionsStruct_create_loop ::
  "SubscriptionValue list \<Rightarrow> CallbacksStruct \<Rightarrow> SubscriptionsStruct \<Rightarrow> error + SubscriptionsStruct"
where
  "SubscriptionsStruct_create_loop [] callbacks_loaded subscriptions = Inr subscriptions"
| "SubscriptionsStruct_create_loop (sub_value # rest) callbacks_loaded subscriptions =
     (case SubscriptionStruct_create_instance callbacks_loaded sub_value of
        Inl e \<Rightarrow>
          (if is_Error e
           then SubscriptionsStruct_create_loop rest callbacks_loaded subscriptions
           else Inl e)
      | Inr sub \<Rightarrow>
          (case subscriptions_add subscriptions sub of
             Inl e \<Rightarrow> Inl e
           | Inr subscriptions' \<Rightarrow>
               SubscriptionsStruct_create_loop rest callbacks_loaded subscriptions'))"

definition SubscriptionsStruct_create_from_reader ::
  "SubscriptionValue list \<Rightarrow> CallbacksStruct \<Rightarrow> error + SubscriptionsStruct" where
  "SubscriptionsStruct_create_from_reader subscription_values callbacks_loaded =
     SubscriptionsStruct_create_loop subscription_values callbacks_loaded SubscriptionsStruct_init"

section \<open>Transform broadcasters and buffers\<close>

text \<open>
  \<open>architecture/struct/transform.py\<close>. The frame structs take their fields as \<open>Optional\<close>;
  the accessor \<open>transform\<close> asserts that the field is set.
\<close>

record TransformFrameBroadcasterStruct =
  fbr_publisher :: "PublisherStruct option"
  fbr_transform :: "TransformValue option"

record TransformFrameBufferStruct =
  fbuf_tf_tree :: TransformTreeValue
  fbuf_transform :: "TransformValue option"
  fbuf_lookup_node_name :: "string option"
  fbuf_listener_node_name :: "string option"

definition frame_broadcaster_transform :: "TransformFrameBroadcasterStruct \<Rightarrow> error + TransformValue" where
  "frame_broadcaster_transform self =
     (case fbr_transform self of None \<Rightarrow> Inl AssertionError | Some t \<Rightarrow> Inr t)"

definition frame_buffer_transform :: "TransformFrameBufferStruct \<Rightarrow> error + TransformValue" where
  "frame_buffer_transform self =
     (case fbuf_transform self of None \<Rightarrow> Inl AssertionError | Some t \<Rightarrow> Inr t)"

text \<open>
  The argument of \<open>is_pair\<close> is typed \<open>Any\<close>: one of the four endpoint structs, or an object
  of any other class.
\<close>

datatype any_struct =
    APublisherStruct PublisherStruct
  | ASubscriptionStruct SubscriptionStruct
  | ATransformFrameBroadcasterStruct TransformFrameBroadcasterStruct
  | ATransformFrameBufferStruct TransformFrameBufferStruct
  | AnyOtherObject

text \<open>\<open>PublisherStruct.is_pair\<close> and \<open>SubscriptionStruct.is_pair\<close>.\<close>

definition publisher_is_pair :: "PublisherStruct \<Rightarrow> any_struct \<Rightarrow> error + bool" where
  "publisher_is_pair self other =
     (case other of
        ASubscriptionStruct sub \<Rightarrow>
          (case publisher_topic_name self of
             Inl e \<Rightarrow> Inl e
           | Inr t \<Rightarrow> Inr (t = ss_topic_name sub))
      | _ \<Rightarrow> Inr False)"

definition subscription_is_pair :: "SubscriptionStruct \<Rightarrow> any_struct \<Rightarrow> error + bool" where
  "subscription_is_pair self other =
     (case other of
        APublisherStruct pub \<Rightarrow>
          (case publisher_topic_name pub of
             Inl e \<Rightarrow> Inl e
           | Inr t \<Rightarrow> Inr (t = ss_topic_name self))
      | _ \<Rightarrow> Inr False)"

text \<open>\<open>TransformFrameBufferStruct.is_pair\<close>.\<close>

definition frame_buffer_is_pair :: "TransformFrameBufferStruct \<Rightarrow> any_struct \<Rightarrow> error + bool" where
  "frame_buffer_is_pair self other =
     (case other of
        ATransformFrameBroadcasterStruct br \<Rightarrow>
          (case frame_buffer_transform self of
             Inl e \<Rightarrow> Inl e
           | Inr lookup \<Rightarrow>
               (case frame_broadcaster_transform br of
                  Inl e \<Rightarrow> Inl e
                | Inr target \<Rightarrow> Inr (is_in (fbuf_tf_tree self) lookup target)))
      | _ \<Rightarrow> Inr False)"

text \<open>
  \<open>TransformFrameBroadcasterStruct.is_pair\<close>. For a frame buffer it calls the buffer's
  \<open>is_pair\<close> and drops the result; the method ends with \<open>return False\<close>.
\<close>

definition frame_broadcaster_is_pair ::
  "TransformFrameBroadcasterStruct \<Rightarrow> any_struct \<Rightarrow> error + bool" where
  "frame_broadcaster_is_pair self other =
     (case other of
        ATransformFrameBufferStruct buf \<Rightarrow>
          (case frame_buffer_is_pair buf (ATransformFrameBroadcasterStruct self) of
             Inl e \<Rightarrow> Inl e
           | Inr _ \<Rightarrow> Inr False)
      | _ \<Rightarrow> Inr False)"

text \<open>
  \<open>TransformBroadcasterStruct\<close> and \<open>TransformBufferStruct\<close>: the constructor makes one
  frame struct per transform. The containers \<open>TransformFrameBroadcastersStruct\<close> and
  \<open>TransformFrameBuffersStruct\<close> wrap a list.
\<close>

record TransformBroadcasterStruct =
  tbr_publisher :: PublisherStruct
  tbr_transforms :: "TransformValue list"
  tbr_frame_brs :: "TransformFrameBroadcasterStruct list"

definition TransformBroadcasterStruct_init ::
  "PublisherStruct \<Rightarrow> TransformValue list \<Rightarrow> TransformBroadcasterStruct" where
  "TransformBroadcasterStruct_init publisher transforms =
     \<lparr>tbr_publisher = publisher,
      tbr_transforms = transforms,
      tbr_frame_brs =
        map (\<lambda>tf. \<lparr>fbr_publisher = Some publisher, fbr_transform = Some tf\<rparr>) transforms\<rparr>"

record TransformBufferStruct =
  tbuf_lookup_node_name :: string
  tbuf_listener_node_name :: "string option"
  tbuf_lookup_transforms :: "TransformValue list"
  tbuf_frame_buffs :: "TransformFrameBufferStruct list"

definition TransformBufferStruct_init ::
  "string \<Rightarrow> TransformTreeValue \<Rightarrow> TransformValue list \<Rightarrow> string option \<Rightarrow> TransformBufferStruct"
where
  "TransformBufferStruct_init lookup_node_name tf_tree lookup_transforms listener_node_name =
     \<lparr>tbuf_lookup_node_name = lookup_node_name,
      tbuf_listener_node_name = listener_node_name,
      tbuf_lookup_transforms = lookup_transforms,
      tbuf_frame_buffs =
        map (\<lambda>tf. \<lparr>fbuf_tf_tree = tf_tree, fbuf_transform = Some tf,
                    fbuf_lookup_node_name = Some lookup_node_name,
                    fbuf_listener_node_name = listener_node_name\<rparr>) lookup_transforms\<rparr>"

section \<open>Nodes\<close>

text \<open>
  \<open>architecture/struct/node.py\<close>. The record holds the fields of \<open>NodeStruct\<close> that
  \<open>node_inputs\<close> and \<open>node_outputs\<close> read; the timers, callback groups, variable passings
  and node paths of a node are read by no function modelled here. \<open>PublishersStruct\<close> wraps
  a list. The accessors \<open>publishers\<close> and \<open>subscriptions\<close> assert that the field is set.
\<close>

record NodeStruct =
  ns_node_id :: string
  ns_node_name :: string
  ns_publishers :: "PublisherStruct list option"
  ns_subscriptions :: "SubscriptionsStruct option"
  ns_tf_buffer :: "TransformBufferStruct option"
  ns_tf_broadcaster :: "TransformBroadcasterStruct option"

datatype NodeInputType =
    InSubscription SubscriptionStruct
  | InFrameBuffer TransformFrameBufferStruct

datatype NodeOutputType =
    OutPublisher PublisherStruct
  | OutFrameBroadcaster TransformFrameBroadcasterStruct

text \<open>
  A filter whose condition can raise: \<open>Util.filter_items\<close> with a condition that reads an
  asserting accessor. The first exception ends it.
\<close>

fun filter_items_raise :: "('a \<Rightarrow> error + bool) \<Rightarrow> 'a list \<Rightarrow> error + 'a list" where
  "filter_items_raise f [] = Inr []"
| "filter_items_raise f (x # xs) =
     (case f x of
        Inl e \<Rightarrow> Inl e
      | Inr b \<Rightarrow>
          (case filter_items_raise f xs of
             Inl e \<Rightarrow> Inl e
           | Inr ys \<Rightarrow> Inr (if b then x # ys else ys)))"

text \<open>\<open>NodeStruct.node_outputs\<close>.\<close>

definition node_outputs :: "NodeStruct \<Rightarrow> error + NodeOutputType list" where
  "node_outputs self =
     (case ns_publishers self of
        None \<Rightarrow> Inl AssertionError
      | Some publishers \<Rightarrow>
          (case filter_items_raise
                  (\<lambda>x. case publisher_topic_name x of
                          Inl e \<Rightarrow> Inl e | Inr t \<Rightarrow> Inr (t \<noteq> ''/tf'')) publishers of
             Inl e \<Rightarrow> Inl e
           | Inr outputs1 \<Rightarrow>
               (case filter_items_raise
                       (\<lambda>x. case publisher_topic_name x of
                               Inl e \<Rightarrow> Inl e | Inr t \<Rightarrow> Inr (\<not> endswith t ''/info/pub''))
                       outputs1 of
                  Inl e \<Rightarrow> Inl e
                | Inr outputs2 \<Rightarrow>
                    Inr (map OutPublisher outputs2
                         @ (case ns_tf_broadcaster self of
                              None \<Rightarrow> []
                            | Some br \<Rightarrow> map OutFrameBroadcaster (tbr_frame_brs br))))))"

text \<open>\<open>NodeStruct.node_inputs\<close>.\<close>

definition node_inputs :: "NodeStruct \<Rightarrow> error + NodeInputType list" where
  "node_inputs self =
     (case ns_subscriptions self of
        None \<Rightarrow> Inl AssertionError
      | Some subscriptions \<Rightarrow>
          Inr (map InSubscription (subs_data subscriptions)
               @ (case ns_tf_buffer self of
                    None \<Rightarrow> []
                  | Some buf \<Rightarrow> map InFrameBuffer (tbuf_frame_buffs buf))))"

section \<open>Node paths\<close>

text \<open>
  \<open>architecture/struct/node_path.py\<close>. A \<open>NodePathStruct\<close> is created with its callback
  chain \<open>child\<close> unset; the chain holds callbacks and variable passings, of which the
  model keeps the names. The message context of a node path, whose class is not among
  the sources, is read by no function modelled here.
\<close>

record NodePathStruct =
  np_node_name :: string
  np_node_input :: "NodeInputType option"
  np_node_output :: "NodeOutputType option"
  np_child :: "string list option"

text \<open>\<open>NodePathsStruct.create\<close> appends to the list that \<open>NodePathsStruct\<close> wraps.\<close>

definition node_paths_create ::
  "NodePathStruct list \<Rightarrow> string \<Rightarrow> NodeInputType option \<Rightarrow> NodeOutputType option
     \<Rightarrow> NodePathStruct list" where
  "node_paths_create self node_name node_input node_output =
     self @ [\<lparr>np_node_name = node_name, np_node_input = node_input,
              np_node_output = node_output, np_child = None\<rparr>]"

text \<open>
  The first part of \<open>NodePathsStruct.create_from_reader\<close>: the three loops that fill the
  table before \<open>CallbackPathSearch\<close> and \<open>MessageContexts.create_from_reader\<close> run.
  \<open>itertools.product(a, b)\<close> pairs every member of \<open>a\<close> with every member of \<open>b\<close>, the
  second running fastest, as \<open>List.product\<close> does. \<open>node_inputs\<close> and \<open>node_outputs\<close>
  are read again for every loop.
\<close>

fun create_inputs_loop ::
  "string \<Rightarrow> NodeInputType list \<Rightarrow> NodePathStruct list \<Rightarrow> NodePathStruct list" where
  "create_inputs_loop node_name [] node_paths = node_paths"
| "create_inputs_loop node_name (node_input # rest) node_paths =
     create_inputs_loop node_name rest
       (node_paths_create node_paths node_name (Some node_input) None)"

fun create_outputs_loop ::
  "string \<Rightarrow> NodeOutputType list \<Rightarrow> NodePathStruct list \<Rightarrow> NodePathStruct list" where
  "create_outputs_loop node_name [] node_paths = node_paths"
| "create_outputs_loop node_name (node_output # rest) node_paths =
     create_outputs_loop node_name rest
       (node_paths_create node_paths node_name None (Some node_output))"

fun create_pairs_loop ::
  "string \<Rightarrow> (NodeInputType \<times> NodeOutputType) list \<Rightarrow> NodePathStruct list \<Rightarrow> NodePathStruct list"
where
  "create_pairs_loop node_name [] node_paths = node_paths"
| "create_pairs_loop node_name ((node_input, node_output) # rest) node_paths =
     create_pairs_loop node_name rest
       (node_paths_create node_paths node_name (Some node_input) (Some node_output))"

definition create_table :: "NodeStruct \<Rightarrow> error + NodePathStruct list" where
  "create_table node =
     (case node_inputs node of Inl e \<Rightarrow> Inl e | Inr ins1 \<Rightarrow>
      let node_paths1 = create_inputs_loop (ns_node_name node) ins1 [] in
      case node_outputs node of Inl e \<Rightarrow> Inl e | Inr outs2 \<Rightarrow>
      let node_paths2 = create_outputs_loop (ns_node_name node) outs2 node_paths1 in
      case node_inputs node of Inl e \<Rightarrow> Inl e | Inr ins3 \<Rightarrow>
      case node_outputs node of Inl e \<Rightarrow> Inl e | Inr outs3 \<Rightarrow>
        Inr (create_pairs_loop (ns_node_name node) (List.product ins3 outs3) node_paths2))"

section \<open>Communications\<close>

text \<open>
  \<open>architecture/struct/communication.py\<close>. \<open>CommunicationStruct.__init__\<close> stores its
  arguments \<open>pub\<close>, \<open>sub\<close>, \<open>node_pub\<close> and \<open>node_sub\<close> and sets both callback fields to
  \<open>None\<close>; its argument \<open>nodes\<close> is not used.
\<close>

record CommunicationStruct =
  cs_sub :: SubscriptionStruct
  cs_pub :: PublisherStruct
  cs_node_pub :: NodeStruct
  cs_node_sub :: NodeStruct
  cs_callback_pub :: "CallbacksStruct option"
  cs_callback_sub :: "CallbackStruct option"

definition CommunicationStruct_init ::
  "PublisherStruct \<Rightarrow> SubscriptionStruct \<Rightarrow> NodeStruct \<Rightarrow> NodeStruct \<Rightarrow> CommunicationStruct"
where
  "CommunicationStruct_init pub sub node_pub node_sub =
     \<lparr>cs_sub = sub, cs_pub = pub, cs_node_pub = node_pub, cs_node_sub = node_sub,
      cs_callback_pub = None, cs_callback_sub = None\<rparr>"

record TransformCommunicationStruct =
  tcs_broadcaster :: TransformFrameBroadcasterStruct
  tcs_buffer :: TransformFrameBufferStruct

definition TransformCommunicationStruct_init ::
  "TransformFrameBroadcasterStruct \<Rightarrow> TransformFrameBufferStruct \<Rightarrow> TransformCommunicationStruct"
where
  "TransformCommunicationStruct_init broadcaster buffer =
     \<lparr>tcs_broadcaster = broadcaster, tcs_buffer = buffer\<rparr>"

datatype communication =
    Communication CommunicationStruct
  | TransformCommunication TransformCommunicationStruct

definition any_of_output :: "NodeOutputType \<Rightarrow> any_struct" where
  "any_of_output node_output =
     (case node_output of
        OutPublisher pub \<Rightarrow> APublisherStruct pub
      | OutFrameBroadcaster br \<Rightarrow> ATransformFrameBroadcasterStruct br)"

text \<open>\<open>node_input.is_pair(node_output)\<close>, dispatched on the class of the input.\<close>

definition input_is_pair :: "NodeInputType \<Rightarrow> NodeOutputType \<Rightarrow> error + bool" where
  "input_is_pair node_input node_output =
     (case node_input of
        InSubscription sub \<Rightarrow> subscription_is_pair sub (any_of_output node_output)
      | InFrameBuffer buf \<Rightarrow> frame_buffer_is_pair buf (any_of_output node_output))"

text \<open>
  The loops of \<open>CommunicationsStruct.__init__\<close>. The state is the list \<open>data\<close> and the
  local variable \<open>comm\<close>, which is unbound until the first communication is built. The
  \<open>else\<close> branch builds a \<open>NotImplementedError\<close> without raising it, so the
  \<open>data.append(comm)\<close> after it appends the communication of an earlier iteration, or
  raises \<open>UnboundLocalError\<close> when there is none. In the call
  \<open>CommunicationStruct(nodes, node_output, node_input, node_recv, node_send)\<close> the
  receiving node is the argument \<open>node_pub\<close> and the sending node is \<open>node_sub\<close>.
\<close>

fun communications_inner_loop ::
  "NodeStruct \<Rightarrow> NodeStruct \<Rightarrow> (NodeInputType \<times> NodeOutputType) list
     \<Rightarrow> communication list \<times> communication option
     \<Rightarrow> error + communication list \<times> communication option"
where
  "communications_inner_loop node_recv node_send [] st = Inr st"
| "communications_inner_loop node_recv node_send ((node_input, node_output) # rest) (data, comm) =
     (case input_is_pair node_input node_output of
        Inl e \<Rightarrow> Inl e
      | Inr False \<Rightarrow> communications_inner_loop node_recv node_send rest (data, comm)
      | Inr True \<Rightarrow>
          (case (node_input, node_output) of
             (InFrameBuffer buf, OutFrameBroadcaster br) \<Rightarrow>
               (let c = TransformCommunication (TransformCommunicationStruct_init br buf)
                in communications_inner_loop node_recv node_send rest (data @ [c], Some c))
           | (InSubscription sub, OutPublisher pub) \<Rightarrow>
               (let c = Communication (CommunicationStruct_init pub sub node_recv node_send)
                in communications_inner_loop node_recv node_send rest (data @ [c], Some c))
           | _ \<Rightarrow>
               (case comm of
                  None \<Rightarrow> Inl UnboundLocalError
                | Some c \<Rightarrow>
                    communications_inner_loop node_recv node_send rest (data @ [c], comm))))"

fun communications_outer_loop ::
  "(NodeStruct \<times> NodeStruct) list \<Rightarrow> communication list \<times> communication option
     \<Rightarrow> error + communication list \<times> communication option"
where
  "communications_outer_loop [] st = Inr st"
| "communications_outer_loop ((node_recv, node_send) # rest) st =
     (case node_inputs node_recv of Inl e \<Rightarrow> Inl e | Inr ins \<Rightarrow>
      case node_outputs node_send of Inl e \<Rightarrow> Inl e | Inr outs \<Rightarrow>
      case communications_inner_loop node_recv node_send (List.product ins outs) st of
        Inl e \<Rightarrow> Inl e
      | Inr st' \<Rightarrow> communications_outer_loop rest st')"

text \<open>
  \<open>CommunicationsStruct.__init__\<close>; \<open>nodes\<close> is the sequence that iterating the
  \<open>NodesStruct\<close> yields. The result is the field \<open>_data\<close>.
\<close>

definition CommunicationsStruct_init :: "NodeStruct list \<Rightarrow> error + communication list" where
  "CommunicationsStruct_init nodes =
     (case communications_outer_loop (List.product nodes nodes) ([], None) of
        Inl e \<Rightarrow> Inl e
      | Inr (data, comm) \<Rightarrow> Inr data)"

section \<open>Intra-node callback search\<close>

text \<open>
  \<open>architecture/graph_search/callback_graph.py\<close>. A Python sequence is a tuple or a
  list; a tuple never equals a list, and an empty sequence is false.
\<close>

datatype 'a pyseq = PyTuple "'a list" | PyList "'a list"

fun pyseq_items :: "'a pyseq \<Rightarrow> 'a list" where
  "pyseq_items (PyTuple xs) = xs"
| "pyseq_items (PyList xs) = xs"

text \<open>
  The callbacks that \<open>search\<close> receives, through the three properties that it reads.
  \<open>node_input\<close> and \<open>node_outputs\<close> are declared by \<open>CallbackStructInterface\<close> with the
  types \<open>Optional[NodeInputType]\<close> and \<open>Optional[Sequence[NodeOutputType]]\<close>.
\<close>

record CallbackStructInterface =
  csi_callback_name :: string
  csi_node_input :: "NodeInputType option"
  csi_node_outputs :: "NodeOutputType pyseq option"

definition to_node_point_name :: "string \<Rightarrow> string \<Rightarrow> string" where
  "to_node_point_name callback_name read_or_write = callback_name @ ''@'' @ read_or_write"

text \<open>\<open>x or []\<close>: \<open>x\<close> when it is true, else the empty list.\<close>

definition or_empty_list :: "'a pyseq option \<Rightarrow> 'a pyseq" where
  "or_empty_list x =
     (case x of
        None \<Rightarrow> PyList []
      | Some xs \<Rightarrow> if pyseq_items xs = [] then PyList [] else xs)"

text \<open>
  The body of the loop over \<open>graph_paths\<close> in \<open>CallbackPathSearcher.search\<close>. Every call
  of \<open>_to_path\<close> is recorded with its three arguments, in call order; the condition
  \<open>out_values is None or out_values == ()\<close> is evaluated on the value that
  \<open>end_callback.node_outputs or []\<close> has left in \<open>out_values\<close>.
\<close>

definition search_graph_path ::
  "'p \<Rightarrow> CallbackStructInterface \<Rightarrow> CallbackStructInterface
     \<Rightarrow> ('p \<times> NodeInputType option \<times> NodeOutputType option) list" where
  "search_graph_path graph_path start_callback end_callback =
     (let in_value = csi_node_input start_callback;
          out_values = or_empty_list (csi_node_outputs end_callback)
      in (if out_values = PyTuple [] then [(graph_path, in_value, None)] else [])
         @ map (\<lambda>out_value. (graph_path, in_value, Some out_value)) (pyseq_items out_values))"

text \<open>
  \<open>CallbackPathSearcher.search\<close>. The class \<open>Graph\<close> is not among the sources: its method
  \<open>search_paths\<close> is the argument \<open>search_paths\<close>, called with the names of the two graph
  nodes. The result is the sequence of \<open>_to_path\<close> calls.
\<close>

definition search ::
  "(string \<Rightarrow> string \<Rightarrow> 'p list) \<Rightarrow> CallbackStructInterface \<Rightarrow> CallbackStructInterface
     \<Rightarrow> ('p \<times> NodeInputType option \<times> NodeOutputType option) list" where
  "search search_paths start_callback end_callback =
     (let start_name = to_node_point_name (csi_callback_name start_callback) ''read'';
          end_name = to_node_point_name (csi_callback_name end_callback) ''write'';
          graph_paths = search_paths start_name end_name
      in concat (map (\<lambda>graph_path. search_graph_path graph_path start_callback end_callback)
                   graph_paths))"

section \<open>Inter-node search: the tables of the searcher\<close>

text \<open>
  \<open>architecture/graph_search/node_graph.py\<close>. \<open>CommunicationStructValue\<close>,
  \<open>NodePathStructValue\<close> and \<open>NodeStructValue\<close> are not among the sources: each is a record
  of the attributes that the wrappers read. The transform values are those of
  \<open>value_objects/transform.py\<close>.
\<close>

record CommunicationStructValue =
  csv_publish_node_name :: string
  csv_subscribe_node_name :: string
  csv_topic_name :: string

record TransformFrameBroadcasterStructValue =
  fbrv_publisher :: PublisherStructValue
  fbrv_transform :: TransformValue

record TransformFrameBufferStructValue =
  fbufv_lookup_node_name :: string
  fbufv_listener_node_name :: "string option"
  fbufv_transform :: TransformValue

record TransformCommunicationStructValue =
  tcv_broadcaster :: TransformFrameBroadcasterStructValue
  tcv_buffer :: TransformFrameBufferStructValue

datatype communication_value =
    CommunicationValue CommunicationStructValue
  | TransformCommunicationValue TransformCommunicationStructValue

record NodePathStructValue =
  npv_node_name :: string
  npv_subscribe_topic_name :: "string option"
  npv_publish_topic_name :: "string option"
  npv_tf_frame_buffer :: "TransformFrameBufferStructValue option"
  npv_tf_frame_broadcaster :: "TransformFrameBroadcasterStructValue option"

record NodeStructValue =
  nsv_node_name :: string
  nsv_paths :: "NodePathStructValue list"

text \<open>\<open>CommunicationWrapper\<close>: its constructor, its property \<open>topic_name\<close> and \<open>get_key\<close>.\<close>

record CommunicationWrapper =
  cw_data :: communication_value
  cw_input_node_name :: string
  cw_output_node_name :: string

definition CommunicationWrapper_init :: "communication_value \<Rightarrow> CommunicationWrapper" where
  "CommunicationWrapper_init comm =
     (case comm of
        TransformCommunicationValue c \<Rightarrow>
          \<lparr>cw_data = comm,
           cw_input_node_name = fbufv_lookup_node_name (tcv_buffer c),
           cw_output_node_name = psv_node_name (fbrv_publisher (tcv_broadcaster c))\<rparr>
      | CommunicationValue c \<Rightarrow>
          \<lparr>cw_data = comm,
           cw_input_node_name = csv_subscribe_node_name c,
           cw_output_node_name = csv_publish_node_name c\<rparr>)"

definition cw_topic_name :: "CommunicationWrapper \<Rightarrow> string" where
  "cw_topic_name self =
     (case cw_data self of
        TransformCommunicationValue c \<Rightarrow> psv_topic_name (fbrv_publisher (tcv_broadcaster c))
      | CommunicationValue c \<Rightarrow> csv_topic_name c)"

definition cw_get_key :: "CommunicationWrapper \<Rightarrow> string \<times> string \<times> string" where
  "cw_get_key self = (cw_output_node_name self, cw_input_node_name self, cw_topic_name self)"

text \<open>\<open>NodePathWrapper\<close>; the topic of a frame buffer value is \<open>/tf\<close>.\<close>

record NodePathWrapper =
  npw_data :: NodePathStructValue
  npw_output_topic_name :: "string option"
  npw_input_topic_name :: "string option"

definition NodePathWrapper_init :: "NodePathStructValue \<Rightarrow> NodePathWrapper" where
  "NodePathWrapper_init node_path =
     \<lparr>npw_data = node_path,
      npw_output_topic_name =
        (case npv_tf_frame_broadcaster node_path of
           Some br \<Rightarrow> Some (psv_topic_name (fbrv_publisher br))
         | None \<Rightarrow> npv_publish_topic_name node_path),
      npw_input_topic_name =
        (case npv_tf_frame_buffer node_path of
           Some buf \<Rightarrow> Some ''/tf''
         | None \<Rightarrow> npv_subscribe_topic_name node_path)\<rparr>"

definition npw_get_key :: "NodePathWrapper \<Rightarrow> string option \<times> string option \<times> string" where
  "npw_get_key self =
     (npw_input_topic_name self, npw_output_topic_name self, npv_node_name (npw_data self))"

text \<open>
  The state that \<open>NodePathSearcher.__init__\<close> builds. Modelled from the spec: the class
  \<open>Graph\<close> is not among the sources; \<open>add_edge(from, to, label)\<close> registers a directed
  edge, and the graph is the list of its edges in the order they were added.
\<close>

record NodePathSearcher =
  nps_nodes :: "NodeStructValue list"
  nps_comms :: "CommunicationWrapper list"
  nps_graph :: "(string \<times> string \<times> string) list"
  nps_node_path_dict :: "((string option \<times> string option \<times> string) \<times> NodePathWrapper) list"
  nps_comm_dict :: "((string \<times> string \<times> string) \<times> CommunicationWrapper) list"

text \<open>
  The loop over the node paths. For a key that is already in the dictionary the source
  builds a warning from \<open>node_path.subscribe_topic_name\<close>; \<open>node_path\<close> is a
  \<open>NodePathWrapper\<close>, which has no such attribute, so reading it raises \<open>AttributeError\<close>.
\<close>

fun node_path_loop ::
  "NodePathWrapper list \<Rightarrow> ((string option \<times> string option \<times> string) \<times> NodePathWrapper) list
     \<Rightarrow> error + ((string option \<times> string option \<times> string) \<times> NodePathWrapper) list"
where
  "node_path_loop [] node_path_dict = Inr node_path_dict"
| "node_path_loop (node_path # rest) node_path_dict =
     (let key = npw_get_key node_path
      in if map_of node_path_dict key = None
         then node_path_loop rest (node_path_dict @ [(key, node_path)])
         else Inl AttributeError)"

text \<open>
  The loop over the communications. The filters are \<open>None\<close> or a predicate. For a key that
  is already in the dictionary the source builds a warning from \<open>comm.publish_node_name\<close>
  and \<open>comm.subscribe_node_name\<close>; \<open>comm\<close> is a \<open>CommunicationWrapper\<close>, which defines
  \<open>input_node_name\<close>, \<open>output_node_name\<close>, \<open>topic_name\<close> and \<open>get_key\<close> only, so reading
  \<open>publish_node_name\<close> raises \<open>AttributeError\<close> before anything is logged.
\<close>

fun comm_loop ::
  "(string \<Rightarrow> bool) option \<Rightarrow> (string \<Rightarrow> bool) option \<Rightarrow> CommunicationWrapper list
     \<Rightarrow> ((string \<times> string \<times> string) \<times> CommunicationWrapper) list \<times> (string \<times> string \<times> string) list
     \<Rightarrow> error + ((string \<times> string \<times> string) \<times> CommunicationWrapper) list
               \<times> (string \<times> string \<times> string) list"
where
  "comm_loop node_filter communication_filter [] st = Inr st"
| "comm_loop node_filter communication_filter (comm # rest) (comm_dict, graph) =
     (if (case communication_filter of None \<Rightarrow> False | Some f \<Rightarrow> \<not> f (cw_topic_name comm))
      then comm_loop node_filter communication_filter rest (comm_dict, graph)
      else if (case node_filter of None \<Rightarrow> False | Some f \<Rightarrow> \<not> f (cw_output_node_name comm))
      then comm_loop node_filter communication_filter rest (comm_dict, graph)
      else if (case node_filter of None \<Rightarrow> False | Some f \<Rightarrow> \<not> f (cw_input_node_name comm))
      then comm_loop node_filter communication_filter rest (comm_dict, graph)
      else
        (let key = cw_get_key comm
         in if map_of comm_dict key = None
            then comm_loop node_filter communication_filter rest
                   (comm_dict @ [(key, comm)],
                    graph @ [(cw_output_node_name comm, cw_input_node_name comm,
                              cw_topic_name comm)])
            else Inl AttributeError))"

text \<open>\<open>NodePathSearcher.__init__\<close>; \<open>Util.flatten\<close> joins the path lists of the nodes.\<close>

definition NodePathSearcher_init ::
  "NodeStructValue list \<Rightarrow> communication_value list \<Rightarrow> (string \<Rightarrow> bool) option
     \<Rightarrow> (string \<Rightarrow> bool) option \<Rightarrow> error + NodePathSearcher" where
  "NodePathSearcher_init nodes communications node_filter communication_filter =
     (let comms = map CommunicationWrapper_init communications;
          node_paths = map NodePathWrapper_init (concat (map nsv_paths nodes))
      in case node_path_loop node_paths [] of
           Inl e \<Rightarrow> Inl e
         | Inr node_path_dict \<Rightarrow>
             (case comm_loop node_filter communication_filter comms ([], []) of
                Inl e \<Rightarrow> Inl e
              | Inr (comm_dict, graph) \<Rightarrow>
                  Inr \<lparr>nps_nodes = nodes, nps_comms = comms, nps_graph = graph,
                       nps_node_path_dict = node_path_dict, nps_comm_dict = comm_dict\<rparr>))"

section \<open>Scenarios\<close>

text \<open>
  Node \<open>N\<close> of the specification's scenario: one subscription on \<open>/in\<close> and one publisher
  on \<open>/out\<close>.
\<close>

definition sub_in :: SubscriptionStruct where
  "sub_in = SubscriptionStruct_init ''N'' ''/in'' None"

definition pub_out :: PublisherStruct where
  "pub_out = \<lparr>ps_node_name = Some ''N'', ps_topic_name = Some ''/out'', ps_callbacks = None\<rparr>"

definition node_N :: NodeStruct where
  "node_N =
     \<lparr>ns_node_id = ''N'', ns_node_name = ''N'',
      ns_publishers = Some [pub_out],
      ns_subscriptions = Some \<lparr>subs_data = [sub_in], subs_is_transformed = False\<rparr>,
      ns_tf_buffer = None, ns_tf_broadcaster = None\<rparr>"

text \<open>
  Nodes \<open>Producer\<close> and \<open>Consumer\<close> of the specification's scenario, and a producer that
  declares its publisher on \<open>/chatter\<close> twice.
\<close>

definition pub_chatter :: PublisherStruct where
  "pub_chatter =
     \<lparr>ps_node_name = Some ''Producer'', ps_topic_name = Some ''/chatter'', ps_callbacks = None\<rparr>"

definition sub_chatter :: SubscriptionStruct where
  "sub_chatter = SubscriptionStruct_init ''Consumer'' ''/chatter'' None"

definition node_Producer :: NodeStruct where
  "node_Producer =
     \<lparr>ns_node_id = ''Producer'', ns_node_name = ''Producer'',
      ns_publishers = Some [pub_chatter],
      ns_subscriptions = Some \<lparr>subs_data = [], subs_is_transformed = False\<rparr>,
      ns_tf_buffer = None, ns_tf_broadcaster = None\<rparr>"

definition node_Producer_twice :: NodeStruct where
  "node_Producer_twice =
     \<lparr>ns_node_id = ''Producer'', ns_node_name = ''Producer'',
      ns_publishers = Some [pub_chatter, pub_chatter],
      ns_subscriptions = Some \<lparr>subs_data = [], subs_is_transformed = False\<rparr>,
      ns_tf_buffer = None, ns_tf_broadcaster = None\<rparr>"

definition node_Consumer :: NodeStruct where
  "node_Consumer =
     \<lparr>ns_node_id = ''Consumer'', ns_node_name = ''Consumer'',
      ns_publishers = Some [],
      ns_subscriptions = Some \<lparr>subs_data = [sub_chatter], subs_is_transformed = False\<rparr>,
      ns_tf_buffer = None, ns_tf_broadcaster = None\<rparr>"





text \<open>
  A node that broadcasts the transform \<open>A \<rightarrow> B\<close> of the chain and declares, besides its
  publisher on \<open>/out\<close>, publishers on \<open>/tf\<close> and on a topic that ends in \<open>/info/pub\<close>; and a
  node that looks up \<open>root \<rightarrow> B\<close> in the chain and whose reader declares a subscription
  on \<open>/tf\<close>.
\<close>

definition pub_tf :: PublisherStruct where
  "pub_tf = \<lparr>ps_node_name = Some ''N'', ps_topic_name = Some ''/tf'', ps_callbacks = None\<rparr>"

definition pub_info :: PublisherStruct where
  "pub_info =
     \<lparr>ps_node_name = Some ''N'', ps_topic_name = Some ''/out/info/pub'', ps_callbacks = None\<rparr>"

definition broadcaster_A_B :: TransformBroadcasterStruct where
  "broadcaster_A_B = TransformBroadcasterStruct_init pub_tf [tf_A_B]"

definition frame_br_A_B :: TransformFrameBroadcasterStruct where
  "frame_br_A_B = \<lparr>fbr_publisher = Some pub_tf, fbr_transform = Some tf_A_B\<rparr>"

definition node_broadcaster :: NodeStruct where
  "node_broadcaster =
     \<lparr>ns_node_id = ''N'', ns_node_name = ''N'',
      ns_publishers = Some [pub_tf, pub_out, pub_info],
      ns_subscriptions = Some \<lparr>subs_data = [], subs_is_transformed = False\<rparr>,
      ns_tf_buffer = None, ns_tf_broadcaster = Some broadcaster_A_B\<rparr>"

definition frame_buf_root_B :: TransformFrameBufferStruct where
  "frame_buf_root_B =
     \<lparr>fbuf_tf_tree = chain_tree, fbuf_transform = Some tf_root_B,
      fbuf_lookup_node_name = Some ''L'', fbuf_listener_node_name = None\<rparr>"

definition subscription_value_tf :: SubscriptionValue where
  "subscription_value_tf =
     \<lparr>sv_topic_name = ''/tf'', sv_node_name = ''L'', sv_node_id = Some ''L'',
      sv_callback_id = None\<rparr>"

definition sub_tf :: SubscriptionStruct where
  "sub_tf = SubscriptionStruct_init ''L'' ''/tf'' None"

definition node_listener :: NodeStruct where
  "node_listener =
     \<lparr>ns_node_id = ''L'', ns_node_name = ''L'',
      ns_publishers = Some [],
      ns_subscriptions = Some \<lparr>subs_data = [sub_tf], subs_is_transformed = False\<rparr>,
      ns_tf_buffer = Some (TransformBufferStruct_init ''L'' chain_tree [tf_root_B] None),
      ns_tf_broadcaster = None\<rparr>"

text \<open>A timer callback and the callbacks container that holds it.\<close>

definition timer_cb :: CallbackStruct where
  "timer_cb =
     \<lparr>cb_node_name = Some ''Producer'', cb_callback_name = ''Producer/callback_0'',
      cb_callback_id = ''timer_0'', cb_symbol = Some ''on_timer'',
      cb_subscribe_topic_name = None, cb_publish_topic_names = Some [''/chatter''],
      cb_kind = TimerCallback (Some 100)\<rparr>"

definition timer_cbs :: CallbacksStruct where
  "timer_cbs = callbacks_insert (CallbacksStruct_init None) timer_cb"


text \<open>
  The three filter checks of the loop over the communications, which a communication
  passes before its key is looked up.
\<close>

definition passes_filters ::
  "(string \<Rightarrow> bool) option \<Rightarrow> (string \<Rightarrow> bool) option \<Rightarrow> CommunicationWrapper \<Rightarrow> bool" where
  "passes_filters node_filter communication_filter comm \<longleftrightarrow>
     (case communication_filter of None \<Rightarrow> True | Some f \<Rightarrow> f (cw_topic_name comm))
   \<and> (case node_filter of None \<Rightarrow> True | Some f \<Rightarrow> f (cw_output_node_name comm))
   \<and> (case node_filter of None \<Rightarrow> True | Some f \<Rightarrow> f (cw_input_node_name comm))"

text \<open>
  Two communications with the same publisher node, subscriber node and topic, and a third
  one on another topic.
\<close>

definition comm_value_chatter :: communication_value where
  "comm_value_chatter =
     CommunicationValue
       \<lparr>csv_publish_node_name = ''Producer'', csv_subscribe_node_name = ''Consumer'',
        csv_topic_name = ''/chatter''\<rparr>"

definition comm_value_other :: communication_value where
  "comm_value_other =
     CommunicationValue
       \<lparr>csv_publish_node_name = ''Producer'', csv_subscribe_node_name = ''Consumer'',
        csv_topic_name = ''/other''\<rparr>"

text \<open>
  A callback graph with the single chain \<open>read \<rightarrow> write\<close> of one callback, a callback
  that is triggered by the subscription on \<open>/in\<close> and publishes on \<open>/out\<close>, and the same
  callback with no declared outputs: \<open>None\<close>, the empty tuple and the empty list.
\<close>

definition single_chain :: "string \<Rightarrow> string \<Rightarrow> string list list" where
  "single_chain start_name end_name = [[start_name, end_name]]"

definition cb_with_output :: CallbackStructInterface where
  "cb_with_output =
     \<lparr>csi_callback_name = ''cb'', csi_node_input = Some (InSubscription sub_in),
      csi_node_outputs = Some (PyList [OutPublisher pub_out])\<rparr>"

definition cb_outputs_None :: CallbackStructInterface where
  "cb_outputs_None =
     \<lparr>csi_callback_name = ''cb'', csi_node_input = Some (InSubscription sub_in),
      csi_node_outputs = None\<rparr>"

definition cb_outputs_empty_tuple :: CallbackStructInterface where
  "cb_outputs_empty_tuple =
     \<lparr>csi_callback_name = ''cb'', csi_node_input = Some (InSubscription sub_in),
      csi_node_outputs = Some (PyTuple [])\<rparr>"

definition cb_outputs_empty_list :: CallbackStructInterface where
  "cb_outputs_empty_list =
     \<lparr>csi_callback_name = ''cb'', csi_node_input = Some (InSubscription sub_in),
      csi_node_outputs = Some (PyList [])\<rparr>"

section \<open>Transform tree matching\<close>


lemma chain_to_root_root: "to_root chain_tree ''root'' = {tf_root_A, tf_A_B, tf_B_C}"
  by (auto simp: to_root_def chain_tree_def tf_root_A_def tf_A_B_def tf_B_C_def)

lemma chain_to_root_B: "to_root chain_tree ''B'' = {tf_B_C}"
  by (simp add: to_root_def chain_tree_def tf_root_A_def tf_A_B_def tf_B_C_def)

lemma chain_is_in_A_B: "is_in chain_tree tf_root_B tf_A_B"
  by (simp add: is_in_def sym_diff_def Let_def tf_root_B_def chain_to_root_root chain_to_root_B)
     (simp add: tf_A_B_def tf_B_C_def)



section \<open>Topic filtering\<close>

lemma tir_get_publishers_loop_eq:
  "tir_get_publishers_loop T ps = filter (\<lambda>p. pv_topic_name p \<notin> set T) ps"
  by (induction ps) simp_all

lemma tir_get_subscriptions_loop_eq:
  "tir_get_subscriptions_loop T ss = filter (\<lambda>s. sv_topic_name s \<notin> set T) ss"
  by (induction ss) simp_all

lemma set_ignore_ids_of_callbacks:
  "set (ignore_ids_of_callbacks S cbs) =
     {c. \<exists>cb \<in> set cbs. \<exists>t \<in> S. scv_subscribe_topic_name cb = Some t \<and> scv_callback_id cb = Some c}"
  by (induction cbs) (auto split: option.splits)

lemma set_ignore_ids_of_nodes:
  "set (ignore_ids_of_nodes reader S nodes) =
     {c. \<exists>node \<in> set nodes. \<exists>cb \<in> set (r_get_subscription_callbacks reader node).
           \<exists>t \<in> S. scv_subscribe_topic_name cb = Some t \<and> scv_callback_id cb = Some c}"
  by (induction nodes) (auto simp: set_ignore_ids_of_callbacks)

text \<open>
  C9. For every ignore list \<open>T\<close>, the filtering reader returns no publisher and no
  subscription whose topic is in \<open>T\<close>, and it returns the callback groups of the wrapped
  reader, one for one, each with the ids of the wrapped reader's group minus the ids of the
  subscription callbacks (of any node of the wrapped reader) whose subscribed topic is
  in \<open>T\<close>.
\<close>

theorem topic_ignored_reader_filters:
  "(\<forall>p \<in> set (tir_get_publishers (TopicIgnoredReader_init reader T) node).
       pv_topic_name p \<notin> set T)
   \<and> (\<forall>s \<in> set (tir_get_subscriptions (TopicIgnoredReader_init reader T) node).
       sv_topic_name s \<notin> set T)
   \<and> list_all2
       (\<lambda>g' g. set (cbg_callback_ids g') =
                 set (cbg_callback_ids g)
                 - {c. \<exists>n \<in> set (r_get_nodes reader).
                         \<exists>cb \<in> set (r_get_subscription_callbacks reader n).
                           \<exists>t \<in> set T. scv_subscribe_topic_name cb = Some t
                                          \<and> scv_callback_id cb = Some c})
       (tir_get_callback_groups (TopicIgnoredReader_init reader T) node)
       (r_get_callback_groups reader node)"
proof -
  let ?self = "TopicIgnoredReader_init reader T"
  let ?ignored = "{c. \<exists>n \<in> set (r_get_nodes reader).
                       \<exists>cb \<in> set (r_get_subscription_callbacks reader n).
                         \<exists>t \<in> set T. scv_subscribe_topic_name cb = Some t
                                        \<and> scv_callback_id cb = Some c}"
  have ids: "tir_ignore_callback_ids ?self = ?ignored"
    by (simp add: TopicIgnoredReader_init_def get_ignore_callback_ids_def
        set_ignore_ids_of_nodes)
  have rd: "tir_reader ?self = reader"
    by (simp add: TopicIgnoredReader_init_def)
  have pubs: "\<forall>p \<in> set (tir_get_publishers ?self node). pv_topic_name p \<notin> set T"
    by (simp add: TopicIgnoredReader_init_def tir_get_publishers_def
        tir_get_publishers_loop_eq)
  have subs: "\<forall>s \<in> set (tir_get_subscriptions ?self node). sv_topic_name s \<notin> set T"
    by (simp add: TopicIgnoredReader_init_def tir_get_subscriptions_def
        tir_get_subscriptions_loop_eq)
  have groups: "list_all2
       (\<lambda>g' g. set (cbg_callback_ids g') = set (cbg_callback_ids g) - ?ignored)
       (tir_get_callback_groups ?self node) (r_get_callback_groups reader node)"
    unfolding tir_get_callback_groups_def rd ids
    by (auto simp: list_all2_map1 intro!: list_all2_refl)
  from pubs subs groups show ?thesis by blast
qed

theorem topic_ignored_reader_filters_witness:
  "tir_get_publishers (TopicIgnoredReader_init w_reader [''/rosout'']) w_node = [w_pub_keep]
   \<and> pv_topic_name w_pub_keep \<notin> set [''/rosout'']
   \<and> tir_get_subscriptions (TopicIgnoredReader_init w_reader [''/rosout'']) w_node = [w_sub_keep]
   \<and> sv_topic_name w_sub_keep \<notin> set [''/rosout'']
   \<and> map cbg_callback_ids
        (tir_get_callback_groups (TopicIgnoredReader_init w_reader [''/rosout'']) w_node)
      = [[''cb_in'']]
   \<and> map cbg_callback_ids (r_get_callback_groups w_reader w_node) = [[''cb_in'', ''cb_rosout'']]"
  using topic_ignored_reader_filters [of w_reader "[''/rosout'']" w_node]
  by (simp add: TopicIgnoredReader_init_def get_ignore_callback_ids_def
      tir_get_publishers_def tir_get_subscriptions_def tir_get_callback_groups_def
      w_reader_def w_node_def w_pub_keep_def w_pub_drop_def w_sub_keep_def w_sub_drop_def
      w_cb_keep_def w_cb_drop_def w_group_def)

section \<open>Node de-duplication\<close>

lemma get_nodes_loop_set:
  "set (get_nodes_loop xs S acc) =
     set acc \<union> {n \<in> set xs. nv_node_name n \<notin> S
                  \<and> find (\<lambda>m. nv_node_name m = nv_node_name n) xs = Some n}"
  by (induction xs arbitrary: S acc) auto

lemma get_nodes_loop_distinct:
  "distinct (map nv_node_name acc) \<Longrightarrow> nv_node_name ` set acc \<subseteq> S
     \<Longrightarrow> distinct (map nv_node_name (get_nodes_loop xs S acc))"
proof (induction xs arbitrary: S acc)
  case Nil
  then show ?case by simp
next
  case (Cons a xs)
  show ?case
  proof (cases "nv_node_name a \<in> S")
    case True
    with Cons show ?thesis by simp
  next
    case False
    with Cons.prems have d: "distinct (map nv_node_name (acc @ [a]))"
      and s: "nv_node_name ` set (acc @ [a]) \<subseteq> insert (nv_node_name a) S"
      by auto
    from Cons.IH [OF d s] False show ?thesis by simp
  qed
qed

text \<open>
  What \<open>get_nodes\<close> returns for every reader: the nodes that are the first of their name
  in reader order, each name once. It returns a pair and raises nothing.
\<close>

lemma get_nodes_first_occurrence:
  "set (snd (get_nodes self)) =
     {n \<in> set (r_get_nodes (tir_reader self)).
        find (\<lambda>m. nv_node_name m = nv_node_name n) (r_get_nodes (tir_reader self)) = Some n}"
  by (simp add: get_nodes_def Let_def get_nodes_loop_set)

lemma get_nodes_names_distinct:
  "distinct (map nv_node_name (snd (get_nodes self)))"
proof -
  have "distinct (map nv_node_name (get_nodes_loop (r_get_nodes (tir_reader self)) {} []))"
    by (rule get_nodes_loop_distinct) simp_all
  then show ?thesis
    by (simp add: get_nodes_def Let_def distinct_map inj_on_def)
qed

text \<open>Two nodes of one name that follow each other in reader order are logged.\<close>

lemma get_nodes_adjacent_duplicate_logged:
  "get_nodes (TopicIgnoredReader_init
                (reader_of_nodes [node_dup_first, node_dup_second, node_other]) [])
   = ([InvalidReaderError [''dup'']], [node_dup_first, node_other])"
  by (simp add: get_nodes_def TopicIgnoredReader_init_def reader_of_nodes_def validate_def
      node_dup_first_def node_dup_second_def node_other_def)

text \<open>
  C5. The claim says that two nodes of one name leave one node of that name, the first,
  and that the duplicate is logged. \<open>_validate\<close> groups the names with \<open>groupby\<close> without
  sorting them, so it sees a duplicate only when the two nodes are neighbours in reader
  order. For the reader order \<open>dup, other, dup\<close> the first \<open>dup\<close> is kept, the second is
  dropped, and nothing is logged.
\<close>

theorem get_nodes_separated_duplicate_not_logged:
  "get_nodes (TopicIgnoredReader_init
                (reader_of_nodes [node_dup_first, node_other, node_dup_second]) [])
   = ([], [node_dup_first, node_other])"
  by (simp add: get_nodes_def TopicIgnoredReader_init_def reader_of_nodes_def validate_def
      node_dup_first_def node_dup_second_def node_other_def)

section \<open>The per-node path table\<close>

lemma create_inputs_loop_eq:
  "create_inputs_loop name ins acc =
     acc @ map (\<lambda>i. \<lparr>np_node_name = name, np_node_input = Some i, np_node_output = None,
                       np_child = None\<rparr>) ins"
  by (induction ins arbitrary: acc) (simp_all add: node_paths_create_def)

lemma create_outputs_loop_eq:
  "create_outputs_loop name outs acc =
     acc @ map (\<lambda>out. \<lparr>np_node_name = name, np_node_input = None, np_node_output = Some out,
                       np_child = None\<rparr>) outs"
  by (induction outs arbitrary: acc) (simp_all add: node_paths_create_def)

lemma create_pairs_loop_eq:
  "create_pairs_loop name pairs acc =
     acc @ map (\<lambda>(i, out). \<lparr>np_node_name = name, np_node_input = Some i, np_node_output = Some out,
                            np_child = None\<rparr>) pairs"
  by (induction pairs arbitrary: acc) (auto simp: node_paths_create_def)

lemma node_N_inputs: "node_inputs node_N = Inr [InSubscription sub_in]"
  by (simp add: node_inputs_def node_N_def)

lemma node_N_outputs: "node_outputs node_N = Inr [OutPublisher pub_out]"
  by (simp add: node_outputs_def node_N_def pub_out_def publisher_topic_name_def endswith_def)

text \<open>
  C2. For a node whose inputs and outputs can be listed, \<open>I\<close> inputs and \<open>O\<close> outputs, the
  table that \<open>NodePathsStruct.create_from_reader\<close> has filled before the callback-graph
  search runs holds one entry per input with output \<open>None\<close>, then one entry per output
  with input \<open>None\<close>, then one entry per pair of an input and an output: \<open>I + O + I * O\<close>
  entries, none with a callback chain. For node \<open>N\<close> with one subscription on \<open>/in\<close> and one
  publisher on \<open>/out\<close> these are the three entries \<open>(in, None)\<close>, \<open>(None, out)\<close> and
  \<open>(in, out)\<close>.
\<close>

theorem create_table_entries:
  assumes "node_inputs node = Inr ins" and "node_outputs node = Inr outs"
  shows "\<exists>table. create_table node = Inr table
     \<and> table =
          map (\<lambda>i. \<lparr>np_node_name = ns_node_name node, np_node_input = Some i,
                      np_node_output = None, np_child = None\<rparr>) ins
        @ map (\<lambda>out. \<lparr>np_node_name = ns_node_name node, np_node_input = None,
                      np_node_output = Some out, np_child = None\<rparr>) outs
        @ map (\<lambda>(i, out). \<lparr>np_node_name = ns_node_name node, np_node_input = Some i,
                           np_node_output = Some out, np_child = None\<rparr>) (List.product ins outs)
     \<and> length table = length ins + length outs + length ins * length outs"
  using assms
  by (simp add: create_table_def create_inputs_loop_eq create_outputs_loop_eq
      create_pairs_loop_eq)

theorem create_table_entries_witness:
  "node_inputs node_N = Inr [InSubscription sub_in]
   \<and> node_outputs node_N = Inr [OutPublisher pub_out]
   \<and> create_table node_N =
       Inr [\<lparr>np_node_name = ''N'', np_node_input = Some (InSubscription sub_in),
              np_node_output = None, np_child = None\<rparr>,
            \<lparr>np_node_name = ''N'', np_node_input = None,
              np_node_output = Some (OutPublisher pub_out), np_child = None\<rparr>,
            \<lparr>np_node_name = ''N'', np_node_input = Some (InSubscription sub_in),
              np_node_output = Some (OutPublisher pub_out), np_child = None\<rparr>]"
  using create_table_entries [OF node_N_inputs node_N_outputs]
  by (auto simp: node_N_inputs node_N_outputs) (simp add: node_N_def)

section \<open>Node outputs and the topic \<open>/tf\<close>\<close>

lemma filter_items_raise_Inr:
  "filter_items_raise f xs = Inr ys \<Longrightarrow>
     set ys \<subseteq> set xs \<and> (\<forall>y \<in> set ys. f y = Inr True)"
proof (induction xs arbitrary: ys)
  case Nil
  then show ?case by simp
next
  case (Cons x xs)
  then show ?case
    by (auto split: sum.splits if_splits)
qed

lemma create_from_reader_no_tf:
  "\<forall>p \<in> set (PublishersStruct_create_from_reader pvs cbs). ps_topic_name p \<noteq> Some ''/tf''"
  by (induction pvs) (auto simp: Let_def)

lemma node_broadcaster_outputs:
  "node_outputs node_broadcaster = Inr [OutPublisher pub_out, OutFrameBroadcaster frame_br_A_B]"
  by (simp add: node_outputs_def node_broadcaster_def pub_out_def pub_tf_def pub_info_def
      publisher_topic_name_def endswith_def broadcaster_A_B_def frame_br_A_B_def
      TransformBroadcasterStruct_init_def)

text \<open>
  C8, as stated, also says that \<open>/tf\<close> traffic appears only as per-transform broadcaster or
  buffer entities. That fails on the input side: \<open>SubscriptionsStruct.create_from_reader\<close>
  keeps a subscription on \<open>/tf\<close> that the reader declares, and \<open>node_inputs\<close> lists it as an
  ordinary subscription next to the frame buffers.
\<close>

theorem tf_subscription_is_ordinary_input:
  "SubscriptionsStruct_create_from_reader [subscription_value_tf] (CallbacksStruct_init None)
     = Inr \<lparr>subs_data = [sub_tf], subs_is_transformed = False\<rparr>
   \<and> ns_subscriptions node_listener = Some \<lparr>subs_data = [sub_tf], subs_is_transformed = False\<rparr>
   \<and> node_inputs node_listener = Inr [InSubscription sub_tf, InFrameBuffer frame_buf_root_B]
   \<and> ss_topic_name sub_tf = ''/tf''"
  by (simp add: SubscriptionsStruct_create_from_reader_def SubscriptionStruct_create_instance_def
      SubscriptionsStruct_init_def subscriptions_add_def subscription_value_tf_def sub_tf_def
      SubscriptionStruct_init_def node_inputs_def node_listener_def frame_buf_root_B_def
      TransformBufferStruct_init_def)

text \<open>
  C8, amended. Whenever \<open>node_outputs\<close> returns, every ordinary publisher in it has a topic
  that is not \<open>/tf\<close> and does not end in \<open>/info/pub\<close>, and every other member is one of the
  per-transform frame broadcasters of the node's transform broadcaster; and
  \<open>PublishersStruct.create_from_reader\<close> returns no publisher on \<open>/tf\<close>.
\<close>

theorem node_outputs_exclude_tf:
  "(node_outputs node = Inr outs \<longrightarrow>
      (\<forall>out \<in> set outs.
         case out of
           OutPublisher p \<Rightarrow>
             (\<exists>t. ps_topic_name p = Some t \<and> t \<noteq> ''/tf'' \<and> \<not> endswith t ''/info/pub'')
         | OutFrameBroadcaster br \<Rightarrow>
             (\<exists>b. ns_tf_broadcaster node = Some b \<and> br \<in> set (tbr_frame_brs b))))
   \<and> (\<forall>p \<in> set (PublishersStruct_create_from_reader publisher_values callbacks).
         ps_topic_name p \<noteq> Some ''/tf'')"
proof -
  have "\<forall>out \<in> set outs.
         case out of
           OutPublisher p \<Rightarrow>
             (\<exists>t. ps_topic_name p = Some t \<and> t \<noteq> ''/tf'' \<and> \<not> endswith t ''/info/pub'')
         | OutFrameBroadcaster br \<Rightarrow>
             (\<exists>b. ns_tf_broadcaster node = Some b \<and> br \<in> set (tbr_frame_brs b))"
    if ok: "node_outputs node = Inr outs"
  proof -
    from ok obtain pubs o1 o2 where
      f1: "filter_items_raise
             (\<lambda>x. case publisher_topic_name x of Inl e \<Rightarrow> Inl e | Inr t \<Rightarrow> Inr (t \<noteq> ''/tf''))
             pubs = Inr o1"
      and f2: "filter_items_raise
             (\<lambda>x. case publisher_topic_name x of
                     Inl e \<Rightarrow> Inl e | Inr t \<Rightarrow> Inr (\<not> endswith t ''/info/pub'')) o1 = Inr o2"
      and outs: "outs = map OutPublisher o2
                   @ (case ns_tf_broadcaster node of
                        None \<Rightarrow> [] | Some br \<Rightarrow> map OutFrameBroadcaster (tbr_frame_brs br))"
      by (auto simp: node_outputs_def split: option.splits sum.splits)
    from filter_items_raise_Inr [OF f1] filter_items_raise_Inr [OF f2]
    have p: "\<forall>p \<in> set o2. \<exists>t. ps_topic_name p = Some t \<and> t \<noteq> ''/tf'' \<and> \<not> endswith t ''/info/pub''"
      by (fastforce simp: publisher_topic_name_def split: option.splits sum.splits)
    show ?thesis
      unfolding outs using p by (cases "ns_tf_broadcaster node") auto
  qed
  with create_from_reader_no_tf show ?thesis by blast
qed

theorem node_outputs_exclude_tf_witness:
  "node_outputs node_broadcaster = Inr [OutPublisher pub_out, OutFrameBroadcaster frame_br_A_B]
   \<and> ps_topic_name pub_out = Some ''/out''
   \<and> ns_publishers node_broadcaster = Some [pub_tf, pub_out, pub_info]
   \<and> PublishersStruct_create_from_reader
        [\<lparr>pv_node_name = ''N'', pv_topic_name = ''/tf'', pv_callback_ids = None\<rparr>,
         \<lparr>pv_node_name = ''N'', pv_topic_name = ''/out'', pv_callback_ids = None\<rparr>]
        (CallbacksStruct_init None) = [pub_out]"
  using node_outputs_exclude_tf [of node_broadcaster
      "[OutPublisher pub_out, OutFrameBroadcaster frame_br_A_B]"
      "[\<lparr>pv_node_name = ''N'', pv_topic_name = ''/tf'', pv_callback_ids = None\<rparr>,
        \<lparr>pv_node_name = ''N'', pv_topic_name = ''/out'', pv_callback_ids = None\<rparr>]"
      "CallbacksStruct_init None"]
  by (simp add: node_broadcaster_outputs) (simp add: pub_out_def node_broadcaster_def)

section \<open>Pairing of transform endpoints\<close>

lemma frame_broadcaster_is_pair_never_True:
  "frame_broadcaster_is_pair b x \<noteq> Inr True"
  by (cases x) (auto simp: frame_broadcaster_is_pair_def split: sum.splits)

text \<open>
  C10. \<open>TransformFrameBroadcasterStruct.is_pair\<close> never returns \<open>True\<close>, for any broadcaster
  and any argument, and it returns \<open>False\<close> whenever the accessors that it reads do not
  fail, that is, unless the argument is a frame buffer and the transform of the buffer or
  of the broadcaster is unset (then the \<open>assert\<close> of the accessor \<open>transform\<close> fails). It
  returns \<open>False\<close> also for the frame buffer that looks up \<open>root \<rightarrow> B\<close> in the chain and the
  broadcaster of \<open>A \<rightarrow> B\<close>, for which the buffer's \<open>is_pair\<close> returns \<open>True\<close>: the pairing
  predicate is not symmetric.
\<close>

theorem frame_broadcaster_is_pair_False:
  "frame_broadcaster_is_pair b x \<noteq> Inr True
   \<and> ((\<forall>buf. x = ATransformFrameBufferStruct buf
              \<longrightarrow> fbuf_transform buf \<noteq> None \<and> fbr_transform b \<noteq> None)
        \<longrightarrow> frame_broadcaster_is_pair b x = Inr False)"
  by (cases x)
     (auto simp: frame_broadcaster_is_pair_def frame_buffer_is_pair_def
        frame_buffer_transform_def frame_broadcaster_transform_def
      split: sum.splits option.splits)

theorem frame_broadcaster_is_pair_False_witness:
  "fbuf_transform frame_buf_root_B \<noteq> None \<and> fbr_transform frame_br_A_B \<noteq> None
   \<and> frame_buffer_is_pair frame_buf_root_B (ATransformFrameBroadcasterStruct frame_br_A_B)
       = Inr True
   \<and> frame_broadcaster_is_pair frame_br_A_B (ATransformFrameBufferStruct frame_buf_root_B)
       = Inr False"
proof -
  have t: "fbuf_transform frame_buf_root_B \<noteq> None" "fbr_transform frame_br_A_B \<noteq> None"
    by (simp_all add: frame_buf_root_B_def frame_br_A_B_def)
  have p: "frame_buffer_is_pair frame_buf_root_B (ATransformFrameBroadcasterStruct frame_br_A_B)
             = Inr True"
    by (simp add: frame_buffer_is_pair_def frame_buffer_transform_def
        frame_broadcaster_transform_def frame_buf_root_B_def frame_br_A_B_def chain_is_in_A_B)
  from frame_broadcaster_is_pair_False
         [of frame_br_A_B "ATransformFrameBufferStruct frame_buf_root_B"] t
  have "frame_broadcaster_is_pair frame_br_A_B (ATransformFrameBufferStruct frame_buf_root_B)
          = Inr False"
    by simp
  with t p show ?thesis by simp
qed

section \<open>Conversion to values and later mutation\<close>

text \<open>
  \<open>SubscriptionStruct\<close> and \<open>SubscriptionsStruct\<close> guard their mutators with
  \<open>_is_transformed\<close>: a second \<open>to_value\<close> gives the same result, and the setter and \<open>add\<close>
  fail after \<open>to_value\<close>.
\<close>

lemma subscription_to_value_twice:
  "fst (subscription_to_value (snd (subscription_to_value s))) = fst (subscription_to_value s)"
  by (simp add: subscription_to_value_def Let_def)

lemma subscription_set_callback_after_to_value:
  "subscription_set_callback (snd (subscription_to_value s)) cb = Inl AssertionError"
  by (simp add: subscription_to_value_def subscription_set_callback_def Let_def)

lemma subscriptions_add_after_to_value:
  "subscriptions_add (snd (subscriptions_to_value ss)) s = Inl AssertionError"
  by (simp add: subscriptions_to_value_def subscriptions_add_def split: prod.splits)

text \<open>
  C7. The claim says that after \<open>to_value\<close> every mutating operation on a struct fails.
  \<open>PublisherStruct\<close> has no such guard: after \<open>to_value\<close> has returned a value without
  callbacks, the setter \<open>callbacks\<close> changes the struct, and the next \<open>to_value\<close> returns a
  different value.
\<close>

theorem publisher_mutable_after_to_value:
  "publisher_to_value pub_chatter
     = Inr \<lparr>psv_node_name = ''Producer'', psv_topic_name = ''/chatter'',
            psv_callback_values = None\<rparr>
   \<and> publisher_set_callbacks pub_chatter timer_cbs
     = \<lparr>ps_node_name = Some ''Producer'', ps_topic_name = Some ''/chatter'',
        ps_callbacks = Some timer_cbs\<rparr>
   \<and> publisher_to_value (publisher_set_callbacks pub_chatter timer_cbs)
     = Inr \<lparr>psv_node_name = ''Producer'', psv_topic_name = ''/chatter'',
            psv_callback_values =
              Some [TimerCallbackStructValue ''Producer'' ''on_timer'' 100
                      (Some [''/chatter'']) ''Producer/callback_0'' ''timer_0'']\<rparr>"
  by (simp add: publisher_to_value_def publisher_set_callbacks_def pub_chatter_def
      publisher_node_name_def publisher_topic_name_def callbacks_to_value_def
      callback_to_value_def timer_cbs_def timer_cb_def callbacks_insert_def
      CallbacksStruct_init_def)

section \<open>Communications between nodes\<close>







lemma producer_consumer_io:
  "node_inputs node_Producer = Inr []" "node_outputs node_Producer = Inr [OutPublisher pub_chatter]"
  "node_inputs node_Consumer = Inr [InSubscription sub_chatter]" "node_outputs node_Consumer = Inr []"
  "node_inputs node_Producer_twice = Inr []"
  "node_outputs node_Producer_twice = Inr [OutPublisher pub_chatter, OutPublisher pub_chatter]"
  by (simp_all add: node_inputs_def node_outputs_def node_Producer_def node_Consumer_def
      node_Producer_twice_def pub_chatter_def publisher_topic_name_def endswith_def)

lemma chatter_is_pair:
  "input_is_pair (InSubscription sub_chatter) (OutPublisher pub_chatter) = Inr True"
  by (simp add: input_is_pair_def any_of_output_def subscription_is_pair_def
      publisher_topic_name_def pub_chatter_def sub_chatter_def SubscriptionStruct_init_def)





text \<open>
  The node fields of that communication: the call passes the receiving node as \<open>node_pub\<close>
  and the sending node as \<open>node_sub\<close>.
\<close>

lemma producer_consumer_communication:
  "CommunicationsStruct_init [node_Producer, node_Consumer]
     = Inr [Communication
              \<lparr>cs_sub = sub_chatter, cs_pub = pub_chatter,
               cs_node_pub = node_Consumer, cs_node_sub = node_Producer,
               cs_callback_pub = None, cs_callback_sub = None\<rparr>]"
  by (simp add: CommunicationsStruct_init_def producer_consumer_io chatter_is_pair
      CommunicationStruct_init_def Let_def)

section \<open>Duplicate communications in the inter-node searcher\<close>

lemma comm_loop_eq:
  "comm_loop nf cf comms (d, g) =
     (let P = filter (passes_filters nf cf) comms
      in if distinct (map cw_get_key P) \<and> set (map cw_get_key P) \<inter> fst ` set d = {}
         then Inr (d @ map (\<lambda>c. (cw_get_key c, c)) P,
                   g @ map (\<lambda>c. (cw_output_node_name c, cw_input_node_name c, cw_topic_name c)) P)
         else Inl AttributeError)"
proof (induction comms arbitrary: d g)
  case Nil
  then show ?case by simp
next
  case (Cons c comms)
  show ?case
  proof (cases "passes_filters nf cf c")
    case False
    then have "comm_loop nf cf (c # comms) (d, g) = comm_loop nf cf comms (d, g)"
      by (auto simp: passes_filters_def split: option.splits)
    with False Cons.IH [of d g] show ?thesis by simp
  next
    case True
    then have step: "comm_loop nf cf (c # comms) (d, g) =
        (if map_of d (cw_get_key c) = None
         then comm_loop nf cf comms
                (d @ [(cw_get_key c, c)],
                 g @ [(cw_output_node_name c, cw_input_node_name c, cw_topic_name c)])
         else Inl AttributeError)"
      by (auto simp: passes_filters_def Let_def split: option.splits)
    show ?thesis
    proof (cases "cw_get_key c \<in> fst ` set d")
      case in_d: True
      then have "map_of d (cw_get_key c) \<noteq> None"
        by (simp add: map_of_eq_None_iff)
      with step True in_d show ?thesis by (auto simp: Let_def)
    next
      case not_in_d: False
      then have "map_of d (cw_get_key c) = None"
        by (simp add: map_of_eq_None_iff)
      with step have "comm_loop nf cf (c # comms) (d, g) =
          comm_loop nf cf comms
            (d @ [(cw_get_key c, c)],
             g @ [(cw_output_node_name c, cw_input_node_name c, cw_topic_name c)])"
        by simp
      with True not_in_d
        Cons.IH [of "d @ [(cw_get_key c, c)]"
                    "g @ [(cw_output_node_name c, cw_input_node_name c, cw_topic_name c)]"]
      show ?thesis by (auto simp: Let_def)
    qed
  qed
qed

text \<open>
  For every input: when the constructor returns, no two communications that passed the
  filters had the same key, and table and graph hold all of them; and when two of them
  have the same key, the constructor does not return a searcher.
\<close>

lemma searcher_built_only_without_duplicates:
  assumes "NodePathSearcher_init nodes communications nf cf = Inr searcher"
  shows "distinct (map cw_get_key
           (filter (passes_filters nf cf) (map CommunicationWrapper_init communications)))"
    and "nps_comm_dict searcher =
           map (\<lambda>c. (cw_get_key c, c))
             (filter (passes_filters nf cf) (map CommunicationWrapper_init communications))"
    and "nps_graph searcher =
           map (\<lambda>c. (cw_output_node_name c, cw_input_node_name c, cw_topic_name c))
             (filter (passes_filters nf cf) (map CommunicationWrapper_init communications))"
  using assms
  by (auto simp: NodePathSearcher_init_def comm_loop_eq Let_def split: sum.splits if_splits)

lemma duplicate_communication_raises:
  assumes "\<not> distinct (map cw_get_key
           (filter (passes_filters nf cf) (map CommunicationWrapper_init communications)))"
  shows "NodePathSearcher_init nodes communications nf cf = Inl AttributeError
       \<or> (\<exists>e. node_path_loop (map NodePathWrapper_init (concat (map nsv_paths nodes))) [] = Inl e)"
  using assms
  by (auto simp: NodePathSearcher_init_def comm_loop_eq Let_def split: sum.splits)

text \<open>
  C6. The claim says that of two communications with the same (publisher node, subscriber
  node, topic) triple the table keeps the first, and the duplicate is dropped after a
  warning. The warning is built from \<open>comm.publish_node_name\<close>, an attribute that the
  \<open>CommunicationWrapper\<close> in \<open>comm\<close> does not have: with a duplicate among the
  communications the constructor raises \<open>AttributeError\<close>, and there is neither table nor
  graph.
\<close>

theorem duplicate_communication_raises_AttributeError:
  "NodePathSearcher_init [] [comm_value_chatter, comm_value_other, comm_value_chatter] None None
     = Inl AttributeError"
  by (simp add: NodePathSearcher_init_def comm_value_chatter_def comm_value_other_def
      CommunicationWrapper_init_def cw_get_key_def cw_topic_name_def)

section \<open>Expansion of callback chains\<close>

lemma or_empty_list_not_empty_tuple: "or_empty_list x \<noteq> PyTuple []"
  by (cases x) (auto simp: or_empty_list_def)

lemma search_graph_path_eq:
  "search_graph_path graph_path start_callback end_callback =
     map (\<lambda>out_value. (graph_path, csi_node_input start_callback, Some out_value))
       (case csi_node_outputs end_callback of None \<Rightarrow> [] | Some xs \<Rightarrow> pyseq_items xs)"
  by (cases "csi_node_outputs end_callback")
     (auto simp: search_graph_path_def Let_def or_empty_list_not_empty_tuple or_empty_list_def)

lemma search_eq:
  "search search_paths start_callback end_callback =
     concat (map (\<lambda>graph_path.
                    map (\<lambda>out_value. (graph_path, csi_node_input start_callback, Some out_value))
                      (case csi_node_outputs end_callback of
                         None \<Rightarrow> [] | Some xs \<Rightarrow> pyseq_items xs))
               (search_paths (to_node_point_name (csi_callback_name start_callback) ''read'')
                  (to_node_point_name (csi_callback_name end_callback) ''write'')))"
  by (simp add: search_def Let_def search_graph_path_eq)

lemma search_never_None_output:
  "(graph_path, node_in, node_out) \<in> set (search search_paths start_callback end_callback)
     \<Longrightarrow> node_out \<noteq> None"
  by (auto simp: search_eq)

lemma search_with_output:
  "search single_chain cb_with_output cb_with_output
     = [([''cb@read'', ''cb@write''], Some (InSubscription sub_in), Some (OutPublisher pub_out))]"
  by (simp add: search_eq single_chain_def cb_with_output_def to_node_point_name_def)

text \<open>
  C4. The claim says that a chain whose end callback declares no outputs still yields one
  node path with output \<open>None\<close>. \<open>out_values = end_callback.node_outputs or []\<close> turns
  \<open>None\<close> and every empty sequence into the empty list, which is neither \<open>None\<close> nor equal
  to \<open>()\<close>, so the branch that calls \<open>_to_path\<close> with output \<open>None\<close> is never taken: for
  a graph with one chain and an end callback without outputs, \<open>search\<close> calls \<open>_to_path\<close>
  not once.
\<close>

theorem search_no_outputs_yields_nothing:
  "single_chain (to_node_point_name ''cb'' ''read'') (to_node_point_name ''cb'' ''write'')
     = [[''cb@read'', ''cb@write'']]
   \<and> search single_chain cb_with_output cb_outputs_None = []
   \<and> search single_chain cb_with_output cb_outputs_empty_tuple = []
   \<and> search single_chain cb_with_output cb_outputs_empty_list = []"
  by (simp add: search_def search_graph_path_def or_empty_list_def single_chain_def
      to_node_point_name_def cb_with_output_def cb_outputs_None_def
      cb_outputs_empty_tuple_def cb_outputs_empty_list_def)

end
